theory Spec2Isabelle
  imports Main "HOL-Library.Word"
begin

section \<open>Python text\<close>

text \<open>
  A Python \<open>str\<close> is a sequence of Unicode code points; the agent obtains its texts from
  \<open>bytes.decode('utf-8')\<close> and from the captured output of a child process, so every code
  point can occur. A text is modelled as the list of its code points.
\<close>

type_synonym pystr = "nat list"

abbreviation LF :: nat where "LF \<equiv> 10"

abbreviation CR :: nat where "CR \<equiv> 13"

abbreviation BACKSLASH :: nat where "BACKSLASH \<equiv> 92"

definition str :: "string \<Rightarrow> pystr" where
  \<comment> \<open>an ASCII literal of the source as a text\<close>
  "str s = map of_char s"

definition isspace :: "nat \<Rightarrow> bool" where
  \<comment> \<open>the code points that \<open>str.strip()\<close> and \<open>str.rstrip()\<close> remove when called without
      an argument (CPython's Unicode whitespace table)\<close>
  "isspace c =
     (c \<in> {9, 10, 11, 12, 13, 28, 29, 30, 31, 32, 133, 160, 5760, 8232, 8233, 8239, 8287, 12288}
      \<or> (8192 \<le> c \<and> c \<le> 8202))"

definition rstrip :: "pystr \<Rightarrow> pystr" where
  "rstrip s = rev (dropWhile isspace (rev s))"

definition strip :: "pystr \<Rightarrow> pystr" where
  "strip s = dropWhile isspace (rstrip s)"

definition endswith :: "pystr \<Rightarrow> nat \<Rightarrow> bool" where
  \<comment> \<open>\<open>s.endswith(c)\<close> for a one-character suffix \<open>c\<close>\<close>
  "endswith s c = (case rev s of [] \<Rightarrow> False | x # _ \<Rightarrow> x = c)"

fun py_split :: "nat \<Rightarrow> pystr \<Rightarrow> pystr list" where
  \<comment> \<open>\<open>s.split(sep)\<close> for a one-character separator: never empty, \<open>''.split(sep) == ['']\<close>\<close>
  "py_split sep [] = [[]]"
| "py_split sep (c # cs) =
     (if c = sep then [] # py_split sep cs
      else (case py_split sep cs of [] \<Rightarrow> [[c]] | l # ls \<Rightarrow> (c # l) # ls))"

fun py_join :: "pystr \<Rightarrow> pystr list \<Rightarrow> pystr" where
  \<comment> \<open>\<open>sep.join(xs)\<close>\<close>
  "py_join sep [] = []"
| "py_join sep [x] = x"
| "py_join sep (x # y # ys) = x @ sep @ py_join sep (y # ys)"

fun replace_crlf :: "pystr \<Rightarrow> pystr" where
  \<comment> \<open>\<open>s.replace('\r\n', '\n')\<close>: left to right, occurrences do not overlap\<close>
  "replace_crlf [] = []"
| "replace_crlf [c] = [c]"
| "replace_crlf (c # d # cs) =
     (if c = CR \<and> d = LF then LF # replace_crlf cs else c # replace_crlf (d # cs))"

definition replace_cr :: "pystr \<Rightarrow> pystr" where
  \<comment> \<open>\<open>s.replace('\r', '\n')\<close>\<close>
  "replace_cr s = map (\<lambda>c. if c = CR then LF else c) s"

section \<open>Repair of line continuations (\<open>decrypt_and_execute\<close>, the loop over \<open>lines\<close>)\<close>

text \<open>
  \<^verbatim>\<open>
  while i < len(lines) and lines[i].strip() == '':
      i += 1
  \<close>
\<close>

function skip_blank :: "pystr list \<Rightarrow> nat \<Rightarrow> nat" where
  "skip_blank lines i =
     (if i < length lines \<and> strip (lines ! i) = [] then skip_blank lines (i + 1) else i)"
  by pat_completeness auto
termination
  by (relation "measure (\<lambda>(lines, i). length lines - i)") auto

declare skip_blank.simps [simp del]

text \<open>
  \<^verbatim>\<open>
  fixed_lines = []
  i = 0
  while i < len(lines):
      line = lines[i]
      if line.rstrip().endswith('\\'):
          fixed_lines.append(line.rstrip())
          i += 1
          while i < len(lines) and lines[i].strip() == '':
              i += 1
          if i < len(lines):
              fixed_lines[-1] += '\n' + lines[i]
              i += 1
      else:
          fixed_lines.append(line)
          i += 1
  \<close>
  The state of the loop is the index \<open>i\<close> and the list \<open>fixed_lines\<close>.
\<close>

function fix_loop :: "pystr list \<Rightarrow> nat \<Rightarrow> pystr list \<Rightarrow> pystr list" where
  "fix_loop lines i fixed_lines =
     (if i < length lines then
        (let line = lines ! i in
         if endswith (rstrip line) BACKSLASH then
           (let fixed1 = fixed_lines @ [rstrip line];
                j = skip_blank lines (i + 1)
            in if j < length lines
               then fix_loop lines (j + 1) (butlast fixed1 @ [last fixed1 @ [LF] @ lines ! j])
               else fix_loop lines j fixed1)
         else fix_loop lines (i + 1) (fixed_lines @ [line]))
      else fixed_lines)"
  by pat_completeness auto
termination
proof (relation "measure (\<lambda>(lines, i, fixed_lines). Suc (length lines) - i)", goal_cases)
  case 1
  show ?case by simp
next
  case (2 lines i fixed_lines line fixed1 j)
  have "k \<le> skip_blank lines k" for k
  proof (induction lines k rule: skip_blank.induct)
    case (1 lines i)
    then show ?case by (subst skip_blank.simps) (simp, linarith)
  qed
  from this [of "i + 1"] 2 show ?case by simp
next
  case (3 lines i fixed_lines line fixed1 j)
  then show ?case by simp
next
  case 4
  then show ?case by simp
qed

declare fix_loop.simps [simp del]

definition fix_line_continuations :: "pystr \<Rightarrow> pystr" where
  \<comment> \<open>\<open>lines = script_content.split('\n')\<close>, the loop, \<open>'\n'.join(fixed_lines)\<close>\<close>
  "fix_line_continuations script_content =
     py_join [LF] (fix_loop (py_split LF script_content) 0 [])"

definition clean_script :: "pystr \<Rightarrow> pystr" where
  \<comment> \<open>the decoded main script: both replacements, then the repair\<close>
  "clean_script script_content =
     fix_line_continuations (replace_cr (replace_crlf script_content))"

text \<open>
  The repair read line by line, as a scan of the list of lines: a scanned line whose
  right-stripped content ends with a backslash is emitted right-stripped, the blank lines
  after it are dropped, and the next line, if there is one, is appended after a newline and
  not scanned itself; any other scanned line is emitted as it is. This second definition is
  the one the loop is compared with.
\<close>

function repair_lines :: "pystr list \<Rightarrow> pystr list" where
  "repair_lines [] = []"
| "repair_lines (l # ls) =
     (if endswith (rstrip l) BACKSLASH then
        (case dropWhile (\<lambda>x. strip x = []) ls of
           [] \<Rightarrow> [rstrip l]
         | n # rest \<Rightarrow> (rstrip l @ [LF] @ n) # repair_lines rest)
      else l # repair_lines ls)"
  by pat_completeness auto
termination
proof (relation "measure length", goal_cases)
  case 1
  show ?case by simp
next
  case (2 l ls n rest)
  have "length (dropWhile (\<lambda>x. strip x = []) ls) \<le> length ls"
    by (rule length_dropWhile_le)
  with 2 show ?case by simp
next
  case 3
  then show ?case by simp
qed

definition ends_with_single_backslash :: "pystr \<Rightarrow> bool" where
  \<comment> \<open>the last character is a backslash and the one before it is not\<close>
  "ends_with_single_backslash s = (endswith s BACKSLASH \<and> \<not> endswith (butlast s) BACKSLASH)"

section \<open>JSON values, exceptions, effects\<close>

type_synonym bytes = "8 word list"

text \<open>
  What \<open>json.loads\<close> returns. A Python \<open>float\<close> is kept as its 64 bits; a \<open>dict\<close> is
  the list of its items in insertion order, with distinct keys.
\<close>

datatype json =
    JNull
  | JBool bool
  | JInt int
  | JFloat "64 word"
  | JStr pystr
  | JArr "json list"
  | JObj "(pystr \<times> json) list"

fun truthy :: "json \<Rightarrow> bool" where
  \<comment> \<open>Python's truth value; a float is false when it is \<open>0.0\<close> or \<open>-0.0\<close>\<close>
  "truthy JNull = False"
| "truthy (JBool b) = b"
| "truthy (JInt i) = (i \<noteq> 0)"
| "truthy (JFloat w) = (push_bit 1 w \<noteq> 0)"
| "truthy (JStr s) = (s \<noteq> [])"
| "truthy (JArr xs) = (xs \<noteq> [])"
| "truthy (JObj d) = (d \<noteq> [])"

fun dict_set :: "pystr \<Rightarrow> json \<Rightarrow> (pystr \<times> json) list \<Rightarrow> (pystr \<times> json) list" where
  \<comment> \<open>\<open>d[k] = v\<close>: an existing key keeps its place, a new key goes to the end\<close>
  "dict_set k v [] = [(k, v)]"
| "dict_set k v (p # ps) = (if fst p = k then (k, v) # ps else p # dict_set k v ps)"

definition dict_merge :: "(pystr \<times> json) list \<Rightarrow> (pystr \<times> json) list \<Rightarrow> (pystr \<times> json) list" where
  \<comment> \<open>\<open>{**a, **b}\<close>\<close>
  "dict_merge a b = foldl (\<lambda>acc kv. dict_set (fst kv) (snd kv) acc) a b"

datatype exn =
    KeyError pystr          \<comment> \<open>\<open>d[k]\<close> on a dict without the key \<open>k\<close>\<close>
  | TypeError json          \<comment> \<open>an operation the type of the value does not support\<close>
  | AttributeError json     \<comment> \<open>\<open>x.get\<close> on a value that is not a dict\<close>
  | JSONDecodeError pystr
  | TimeoutExpired
  | UnicodeEncodeError      \<comment> \<open>a text written to a console that cannot encode it\<close>
  | LibraryError pystr      \<comment> \<open>any other exception raised inside a library call\<close>

definition getitem :: "json \<Rightarrow> pystr \<Rightarrow> exn + json" where
  \<comment> \<open>\<open>x[k]\<close> for a string \<open>k\<close>\<close>
  "getitem x k =
     (case x of
        JObj d \<Rightarrow> (case map_of d k of Some v \<Rightarrow> Inr v | None \<Rightarrow> Inl (KeyError k))
      | _ \<Rightarrow> Inl (TypeError x))"

definition dict_get :: "(pystr \<times> json) list \<Rightarrow> pystr \<Rightarrow> json \<Rightarrow> json" where
  \<comment> \<open>\<open>d.get(k, default)\<close> on a dict\<close>
  "dict_get d k dflt = (case map_of d k of Some v \<Rightarrow> v | None \<Rightarrow> dflt)"

definition get_method :: "json \<Rightarrow> pystr \<Rightarrow> json \<Rightarrow> exn + json" where
  \<comment> \<open>\<open>x.get(k, default)\<close>\<close>
  "get_method x k dflt =
     (case x of
        JObj d \<Rightarrow> Inr (case map_of d k of Some v \<Rightarrow> v | None \<Rightarrow> dflt)
      | _ \<Rightarrow> Inl (AttributeError x))"

definition py_len :: "json \<Rightarrow> exn + nat" where
  "py_len x =
     (case x of
        JStr s \<Rightarrow> Inr (length s)
      | JArr xs \<Rightarrow> Inr (length xs)
      | JObj d \<Rightarrow> Inr (length d)
      | _ \<Rightarrow> Inl (TypeError x))"

definition py_iter :: "json \<Rightarrow> exn + json list" where
  \<comment> \<open>the values a \<open>for\<close> loop over \<open>x\<close> visits\<close>
  "py_iter x =
     (case x of
        JStr s \<Rightarrow> Inr (map (\<lambda>c. JStr [c]) s)
      | JArr xs \<Rightarrow> Inr xs
      | JObj d \<Rightarrow> Inr (map (\<lambda>kv. JStr (fst kv)) d)
      | _ \<Rightarrow> Inl (TypeError x))"

record completed =
  returncode :: int
  stdout :: pystr
  stderr :: pystr

text \<open>
  The calls that leave the agent's own code, as the events of a run, in the order they are
  made.
\<close>

datatype event =
    EvDecrypt bytes bytes bytes            \<comment> \<open>\<open>AESGCM(key).decrypt(nonce, data, None)\<close>\<close>
  | EvMkdtemp                              \<comment> \<open>\<open>tempfile.mkdtemp(prefix='mcp_script_')\<close>\<close>
  | EvWrite pystr pystr                    \<comment> \<open>\<open>open(path, 'w', ...)\<close> and \<open>f.write(content)\<close>\<close>
  | EvRun "pystr list" "pystr option" nat  \<comment> \<open>\<open>subprocess.run(argv, cwd=..., timeout=...)\<close>\<close>
  | EvExists json                          \<comment> \<open>\<open>os.path.exists(path)\<close>\<close>
  | EvLoadImage json                       \<comment> \<open>\<open>Image.open(path)\<close>, saved as PNG, base64\<close>
  | EvRmtree pystr                         \<comment> \<open>\<open>shutil.rmtree(path)\<close>\<close>
  | EvRead int                             \<comment> \<open>\<open>self.rfile.read(n)\<close>\<close>
  | EvSend nat pystr                       \<comment> \<open>\<open>send_response(status)\<close>, headers, body\<close>

text \<open>
  The libraries and the operating system are not part of the repository: what each call
  returns, or the exception it raises, is a parameter of the model.
\<close>

record env =
  API_KEY :: pystr
  fromhex :: "json \<Rightarrow> exn + bytes"
  AESGCM :: "bytes \<Rightarrow> exn option"
  aesgcm_decrypt :: "bytes \<Rightarrow> bytes \<Rightarrow> bytes \<Rightarrow> exn + bytes"
  decode_utf8 :: "bytes \<Rightarrow> exn + pystr"
  mkdtemp :: "exn + pystr"
  os_path_join :: "pystr \<Rightarrow> pystr \<Rightarrow> pystr"
  write_file :: "pystr \<Rightarrow> pystr \<Rightarrow> exn option"
  py_str :: "json \<Rightarrow> pystr"
  subprocess_run :: "pystr list \<Rightarrow> pystr option \<Rightarrow> nat \<Rightarrow> exn + completed"
  json_loads :: "pystr \<Rightarrow> exn + json"
  os_path_exists :: "json \<Rightarrow> exn + bool"
  image_base64 :: "json \<Rightarrow> exn + pystr"
  rmtree :: "pystr \<Rightarrow> exn option"
  str_exn :: "exn \<Rightarrow> pystr"
  py_int :: "pystr option \<Rightarrow> exn + int"
  json_loads_bytes :: "bytes \<Rightarrow> exn + json"
  json_dumps :: "json \<Rightarrow> pystr"
  format_exc :: "exn \<Rightarrow> pystr"
  encodable :: "nat \<Rightarrow> bool"

text \<open>
  \<open>py_str\<close> is \<open>str(v)\<close> for a value that is not a string, and \<open>encodable c\<close> says
  whether the console the agent prints to has an encoding for the code point \<open>c\<close>.
\<close>

definition str_value :: "env \<Rightarrow> json \<Rightarrow> pystr" where
  \<comment> \<open>\<open>str(v)\<close>, also what the field \<open>{v}\<close> of an f-string is: a string is its own text\<close>
  "str_value E v = (case v of JStr s \<Rightarrow> s | _ \<Rightarrow> py_str E v)"

text \<open>
  \<open>print(f'...{v}...')\<close> for values \<open>v\<close> that come from the request or from the output
  of the script: the text is written to the console, which raises \<open>UnicodeEncodeError\<close>
  when it cannot encode one of the characters (a lone surrogate, which \<open>json.loads\<close>
  accepts, has no encoding in UTF-8). The prints of fixed text, of counts, of the agent's
  own paths and of the text of an exception are left out.
\<close>

definition py_print :: "env \<Rightarrow> json list \<Rightarrow> exn + unit" where
  "py_print E vs =
     (if list_all (\<lambda>v. list_all (encodable E) (str_value E v)) vs then Inr ()
      else Inl UnicodeEncodeError)"

text \<open>
  A computation returns a value or raises, and leaves the events it made.
\<close>

type_synonym 'a io = "(exn + 'a) \<times> event list"

definition ret :: "'a \<Rightarrow> 'a io" where
  "ret v = (Inr v, [])"

definition raise :: "exn \<Rightarrow> 'a io" where
  "raise e = (Inl e, [])"

definition pure :: "exn + 'a \<Rightarrow> 'a io" where
  \<comment> \<open>a step without an event\<close>
  "pure r = (r, [])"

definition call :: "event \<Rightarrow> exn + 'a \<Rightarrow> 'a io" where
  \<comment> \<open>a call that leaves an event and has the given outcome\<close>
  "call ev r = (r, [ev])"

definition io_bind :: "'a io \<Rightarrow> ('a \<Rightarrow> 'b io) \<Rightarrow> 'b io" where
  \<comment> \<open>\<open>x = m; f(x)\<close>: an exception of \<open>m\<close> skips \<open>f\<close>\<close>
  "io_bind m f =
     (case m of
        (Inl e, t) \<Rightarrow> (Inl e, t)
      | (Inr v, t) \<Rightarrow> (case f v of (r, t') \<Rightarrow> (r, t @ t')))"

definition try_except :: "'a io \<Rightarrow> (exn \<Rightarrow> 'a io) \<Rightarrow> 'a io" where
  \<comment> \<open>\<open>try: m  except Exception as e: h(e)\<close>\<close>
  "try_except m h =
     (case m of
        (Inl e, t) \<Rightarrow> (case h e of (r, t') \<Rightarrow> (r, t @ t'))
      | (Inr v, t) \<Rightarrow> (Inr v, t))"

definition try_finally :: "'a io \<Rightarrow> unit io \<Rightarrow> 'a io" where
  \<comment> \<open>\<open>try: m  finally: fin\<close>: \<open>fin\<close> runs on every exit of \<open>m\<close>, a \<open>return\<close> included;
      an exception of \<open>fin\<close> replaces the outcome of \<open>m\<close>\<close>
  "try_finally m fin =
     (case m of (r, t) \<Rightarrow>
        (case fin of
           (Inl e, t') \<Rightarrow> (Inl e, t @ t')
         | (Inr u, t') \<Rightarrow> (r, t @ t')))"

definition outcome :: "exn option \<Rightarrow> exn + unit" where
  \<comment> \<open>a call made for its effect: \<open>None\<close> when it returns\<close>
  "outcome r = (case r of None \<Rightarrow> Inr () | Some e \<Rightarrow> Inl e)"

definition sum_bind :: "exn + 'a \<Rightarrow> ('a \<Rightarrow> exn + 'b) \<Rightarrow> exn + 'b" where
  \<comment> \<open>sequencing of steps that make no call: the first exception ends the sequence\<close>
  "sum_bind r f = (case r of Inl e \<Rightarrow> Inl e | Inr v \<Rightarrow> f v)"

section \<open>The agent (\<open>ThinClient/windows-agent.py\<close>)\<close>

definition decrypt :: "env \<Rightarrow> bytes \<Rightarrow> bytes \<Rightarrow> bytes \<Rightarrow> bytes io" where
  \<comment> \<open>\<open>aesgcm.decrypt(nonce, data, None)\<close> on the object \<open>aesgcm = AESGCM(key)\<close>\<close>
  "decrypt E key nonce data = call (EvDecrypt key nonce data) (aesgcm_decrypt E key nonce data)"

definition open_write :: "env \<Rightarrow> pystr \<Rightarrow> pystr \<Rightarrow> unit io" where
  \<comment> \<open>\<open>with open(path, 'w', encoding='utf-8', newline='\n') as f: f.write(content)\<close>\<close>
  "open_write E path content = call (EvWrite path content) (outcome (write_file E path content))"

definition path_join :: "env \<Rightarrow> pystr \<Rightarrow> json \<Rightarrow> exn + pystr" where
  \<comment> \<open>\<open>os.path.join(temp_dir, name)\<close>: a \<open>name\<close> that is not a string is a \<open>TypeError\<close>\<close>
  "path_join E dir name =
     (case name of JStr s \<Rightarrow> Inr (os_path_join E dir s) | _ \<Rightarrow> Inl (TypeError name))"

text \<open>
  \<open>add_base64_screenshot(self, response)\<close>, called with a dict; \<open>None\<close> is Python's
  \<open>None\<close>. The whole body is inside \<open>try: ... except Exception: return None\<close>.
\<close>

definition add_base64_screenshot ::
  "env \<Rightarrow> (pystr \<times> json) list \<Rightarrow> (pystr \<times> json) list option io" where
  "add_base64_screenshot E response =
     try_except
       (let screenshot_path = (case map_of response (str ''path'') of Some v \<Rightarrow> v | None \<Rightarrow> JNull)
        in if \<not> truthy screenshot_path then ret None
           else io_bind (call (EvExists screenshot_path) (os_path_exists E screenshot_path)) (\<lambda>ex.
                if \<not> ex then ret None
                else io_bind (pure (py_print E [screenshot_path])) (\<lambda>u.
                     io_bind (call (EvLoadImage screenshot_path) (image_base64 E screenshot_path))
                  (\<lambda>img_base64.
                     ret (Some (dict_set (str ''screenshot'') (JStr img_base64) response))))))
       (\<lambda>e. ret None)"

text \<open>
  \<open>decrypt_and_execute\<close>, from \<open>if result.returncode != 0\<close> to the end of the inner
  \<open>try\<close> block. \<open>output_json.get\<close> exists only on a dict; on any other parsed value the
  \<open>AttributeError\<close> is not a \<open>JSONDecodeError\<close> and leaves the block.
\<close>

definition normalize_result :: "env \<Rightarrow> completed \<Rightarrow> json io" where
  "normalize_result E result =
     (if returncode result \<noteq> 0 then
        ret (JObj [(str ''success'', JBool False),
                   (str ''error'', JStr (if stderr result \<noteq> [] then strip (stderr result)
                                        else str ''Script execution failed'')),
                   (str ''output'', JStr (strip (stdout result)))])
      else
        try_except
          (io_bind (pure (json_loads E (stdout result))) (\<lambda>output_json.
             case output_json of
               JObj d \<Rightarrow>
                 io_bind
                   (if truthy (case map_of d (str ''success'') of Some v \<Rightarrow> v | None \<Rightarrow> JNull)
                       \<and> map_of d (str ''path'') \<noteq> None
                    then io_bind (add_base64_screenshot E d) (\<lambda>enhanced.
                           ret (case enhanced of
                                  Some d' \<Rightarrow> if d' \<noteq> [] then d' else d
                                | None \<Rightarrow> d))
                    else ret d)
                   (\<lambda>output_json. ret (JObj (dict_merge [(str ''success'', JBool True)] output_json)))
             | _ \<Rightarrow> raise (AttributeError output_json)))
          (\<lambda>e. case e of
                  JSONDecodeError m \<Rightarrow>
                    ret (JObj [(str ''success'', JBool True),
                               (str ''output'', JStr (strip (stdout result)))])
                | _ \<Rightarrow> raise e))"

text \<open>
  One turn of \<open>for helper in helper_scripts\<close>. The first four statements of the \<open>try\<close>
  block read the helper's fields; after the write the name is printed; the handler
  evaluates \<open>helper.get("name", "unknown")\<close> and prints it, and an exception of the handler
  leaves the loop.
\<close>

definition helper_fields :: "env \<Rightarrow> json \<Rightarrow> exn + (json \<times> bytes \<times> bytes \<times> bytes)" where
  "helper_fields E helper =
     sum_bind (getitem helper (str ''name'')) (\<lambda>helper_name.
     sum_bind (getitem helper (str ''encryptedContent'')) (\<lambda>c.
     sum_bind (fromhex E c) (\<lambda>helper_encrypted.
     sum_bind (getitem helper (str ''iv'')) (\<lambda>i.
     sum_bind (fromhex E i) (\<lambda>helper_iv.
     sum_bind (getitem helper (str ''authTag'')) (\<lambda>a.
     sum_bind (fromhex E a) (\<lambda>helper_auth_tag.
     Inr (helper_name, helper_encrypted, helper_iv, helper_auth_tag))))))))"

definition materialize_helper :: "env \<Rightarrow> bytes \<Rightarrow> pystr \<Rightarrow> json \<Rightarrow> unit io" where
  "materialize_helper E key temp_dir helper =
     try_except
       (io_bind (pure (helper_fields E helper))
          (\<lambda>(helper_name, helper_encrypted, helper_iv, helper_auth_tag).
        io_bind (try_except (decrypt E key helper_iv (helper_encrypted @ helper_auth_tag))
                   (\<lambda>e. decrypt E key helper_iv helper_encrypted)) (\<lambda>helper_decrypted.
        io_bind (pure (decode_utf8 E helper_decrypted)) (\<lambda>helper_content.
        let helper_content = replace_cr (replace_crlf helper_content) in
        io_bind (pure (path_join E temp_dir helper_name)) (\<lambda>helper_path.
        io_bind (open_write E helper_path helper_content) (\<lambda>u.
        pure (py_print E [helper_name])))))))
       (\<lambda>e. io_bind (pure (get_method helper (str ''name'') (JStr (str ''unknown'')))) (\<lambda>n.
            pure (py_print E [n])))"

fun materialize_helpers :: "env \<Rightarrow> bytes \<Rightarrow> pystr \<Rightarrow> json list \<Rightarrow> unit io" where
  "materialize_helpers E key temp_dir [] = ret ()"
| "materialize_helpers E key temp_dir (helper # helpers) =
     io_bind (materialize_helper E key temp_dir helper)
       (\<lambda>u. materialize_helpers E key temp_dir helpers)"

text \<open>From \<open>main_script_path = os.path.join(temp_dir, script_name)\<close> to the end of the
  \<open>try\<close> block that the \<open>finally\<close> guards.\<close>

definition run_main_script :: "env \<Rightarrow> pystr \<Rightarrow> json \<Rightarrow> pystr \<Rightarrow> json \<Rightarrow> json io" where
  "run_main_script E temp_dir script_name script_content arguments =
     io_bind (pure (path_join E temp_dir script_name)) (\<lambda>main_script_path.
     io_bind (open_write E main_script_path script_content) (\<lambda>u.
     io_bind (pure (py_print E [script_name])) (\<lambda>u.
     io_bind (pure (py_iter arguments)) (\<lambda>args.
     let cmd = [str ''python'', main_script_path] @ map (str_value E) args in
     io_bind (call (EvRun cmd (Some temp_dir) 60) (subprocess_run E cmd (Some temp_dir) 60))
       (normalize_result E)))))"

definition cleanup :: "env \<Rightarrow> pystr \<Rightarrow> unit io" where
  \<comment> \<open>the \<open>finally\<close> block: \<open>try: shutil.rmtree(temp_dir)  except Exception: print(...)\<close>\<close>
  "cleanup E temp_dir = try_except (call (EvRmtree temp_dir) (outcome (rmtree E temp_dir))) (\<lambda>e. ret ())"

definition script_steps ::
  "env \<Rightarrow> bytes \<Rightarrow> pystr \<Rightarrow> json \<Rightarrow> json \<Rightarrow> pystr \<Rightarrow> json \<Rightarrow> json io" where
  \<comment> \<open>the \<open>try\<close> block that the \<open>finally\<close> guards: the helpers, then the main script\<close>
  "script_steps E key temp_dir helper_scripts script_name script_content arguments =
     io_bind (io_bind (pure (py_iter helper_scripts)) (materialize_helpers E key temp_dir)) (\<lambda>u.
     run_main_script E temp_dir script_name script_content arguments)"

definition execute_python ::
  "env \<Rightarrow> bytes \<Rightarrow> bytes \<Rightarrow> json \<Rightarrow> json \<Rightarrow> json \<Rightarrow> json io" where
  \<comment> \<open>the \<open>else\<close> branch of \<open>if script_type == 'powershell'\<close>\<close>
  "execute_python E key decrypted arguments script_name helper_scripts =
     io_bind (pure (decode_utf8 E decrypted)) (\<lambda>script_content.
     let script_content = clean_script script_content in
     io_bind (call EvMkdtemp (mkdtemp E)) (\<lambda>temp_dir.
     try_finally
       (script_steps E key temp_dir helper_scripts script_name script_content arguments)
       (cleanup E temp_dir)))"

definition execute_powershell :: "env \<Rightarrow> bytes \<Rightarrow> json io" where
  \<comment> \<open>the branch \<open>script_type == 'powershell'\<close>\<close>
  "execute_powershell E decrypted =
     io_bind (pure (decode_utf8 E decrypted)) (\<lambda>command.
     let argv = [str ''powershell'', str ''-Command'', command] in
     io_bind (call (EvRun argv None 30) (subprocess_run E argv None 30)) (\<lambda>result.
     ret (JObj [(str ''success'', JBool (returncode result = 0)),
                (str ''output'', JStr (strip (stdout result))),
                (str ''error'', if stderr result \<noteq> [] then JStr (strip (stderr result))
                                else JNull)])))"

text \<open>
  \<open>decrypt_and_execute\<close>, the statements before the first decryption: the fields of the
  envelope, the two prints of the script's type, name and arguments,
  \<open>len(helper_scripts)\<close> (evaluated for a message) and \<open>AESGCM(key)\<close>.
\<close>

definition extract_fields ::
  "env \<Rightarrow> json \<Rightarrow> exn + (bytes \<times> bytes \<times> bytes \<times> bytes \<times> json \<times> json \<times> json \<times> json)" where
  "extract_fields E payload =
     sum_bind (get_method payload (str ''encryptedScript'') JNull) (\<lambda>s.
     sum_bind (if truthy s then Inr s
               else get_method payload (str ''encryptedCommand'') JNull) (\<lambda>c.
     sum_bind (fromhex E c) (\<lambda>encrypted_data.
     sum_bind (getitem payload (str ''iv'')) (\<lambda>i.
     sum_bind (fromhex E i) (\<lambda>iv.
     sum_bind (getitem payload (str ''authTag'')) (\<lambda>a.
     sum_bind (fromhex E a) (\<lambda>auth_tag.
     sum_bind (getitem payload (str ''decryption'')) (\<lambda>d.
     sum_bind (getitem d (str ''key'')) (\<lambda>k.
     sum_bind (fromhex E k) (\<lambda>key.
     sum_bind (get_method payload (str ''type'') (JStr (str ''python''))) (\<lambda>script_type.
     sum_bind (get_method payload (str ''arguments'') (JArr [])) (\<lambda>arguments.
     sum_bind (get_method payload (str ''scriptName'') (JStr (str ''unknown''))) (\<lambda>script_name.
     sum_bind (get_method payload (str ''helperScripts'') (JArr [])) (\<lambda>helper_scripts.
     sum_bind (py_print E [script_type, script_name]) (\<lambda>u.
     sum_bind (py_print E [arguments]) (\<lambda>u.
     sum_bind (py_len helper_scripts) (\<lambda>n.
     sum_bind (outcome (AESGCM E key)) (\<lambda>aesgcm.
     Inr (encrypted_data, iv, auth_tag, key, script_type, arguments, script_name,
          helper_scripts)))))))))))))))))))"

definition failure_response :: "env \<Rightarrow> exn \<Rightarrow> json" where
  \<comment> \<open>what the outer \<open>except Exception as e\<close> returns\<close>
  "failure_response E e =
     JObj [(str ''success'', JBool False),
           (str ''error'', JStr (str ''Decryption/execution failed: '' @ str_exn E e))]"

definition decrypt_and_execute :: "env \<Rightarrow> json \<Rightarrow> json io" where
  "decrypt_and_execute E payload =
     try_except
       (io_bind (pure (extract_fields E payload))
          (\<lambda>(encrypted_data, iv, auth_tag, key, script_type, arguments, script_name,
              helper_scripts).
        io_bind (try_except (decrypt E key iv (encrypted_data @ auth_tag))
                   (\<lambda>e. decrypt E key iv encrypted_data)) (\<lambda>decrypted.
        if script_type = JStr (str ''powershell'') then execute_powershell E decrypted
        else execute_python E key decrypted arguments script_name helper_scripts)))
       (\<lambda>e. ret (failure_response E e))"

record request =
  authorization :: "pystr option"       \<comment> \<open>the \<open>Authorization\<close> header, if there is one\<close>
  content_length :: "pystr option"      \<comment> \<open>the \<open>Content-Length\<close> header, if there is one\<close>
  rfile_read :: "int \<Rightarrow> exn + bytes"     \<comment> \<open>what \<open>self.rfile.read(n)\<close> gives\<close>

definition unauthorized_body :: pystr where
  \<open>unauthorized_body = str ''{"success": false, "error": "Unauthorized"}''\<close>

definition handle_encrypted_execution :: "env \<Rightarrow> request \<Rightarrow> unit io" where
  "handle_encrypted_execution E req =
     (let auth_header = (case authorization req of Some h \<Rightarrow> h | None \<Rightarrow> [])
      in if take 7 auth_header \<noteq> str ''Bearer '' \<or> drop 7 auth_header \<noteq> API_KEY E
         then call (EvSend 401 unauthorized_body) (Inr ())
         else
           try_except
             (io_bind (pure (py_int E (content_length req))) (\<lambda>content_length.
              io_bind (call (EvRead content_length) (rfile_read req content_length)) (\<lambda>body.
              io_bind (pure (json_loads_bytes E body)) (\<lambda>payload.
              io_bind (decrypt_and_execute E payload) (\<lambda>result.
              call (EvSend 200 (json_dumps E result)) (Inr ()))))))
             (\<lambda>e. call (EvSend 500 (json_dumps E (JObj
                        [(str ''success'', JBool False),
                         (str ''error'', JStr (str_exn E e)),
                         (str ''trace'', JStr (format_exc E e))]))) (Inr ())))"

text \<open>
  The kind of call an event records; \<open>kinds m\<close> are the kinds of call a computation
  makes. They are used to say which calls a part of the agent cannot make.
\<close>

datatype event_kind = Decrypt | Mkdtemp | Write | Run | Exists | LoadImage | Rmtree | Read | Send

fun kind :: "event \<Rightarrow> event_kind" where
  "kind (EvDecrypt k n d) = Decrypt"
| "kind EvMkdtemp = Mkdtemp"
| "kind (EvWrite p c) = Write"
| "kind (EvRun argv cwd t) = Run"
| "kind (EvExists p) = Exists"
| "kind (EvLoadImage p) = LoadImage"
| "kind (EvRmtree p) = Rmtree"
| "kind (EvRead n) = Read"
| "kind (EvSend s b) = Send"

definition kinds :: "'a io \<Rightarrow> event_kind set" where
  "kinds m = kind ` set (snd m)"

text \<open>
  The decrypt operation as the specification words it: the AEAD open is attempted on the
  combined buffer \<open>cipher_text || tag\<close>; only if that raises, the first error is
  dropped and the open is attempted on \<open>cipher_text\<close> alone, whose plaintext or error is
  the result. The events are the attempts made, in order.
\<close>

definition two_layout_attempts :: "env \<Rightarrow> bytes \<Rightarrow> bytes \<Rightarrow> bytes \<Rightarrow> bytes \<Rightarrow> bytes io" where
  "two_layout_attempts E key iv cipher_text tag =
     (case aesgcm_decrypt E key iv (cipher_text @ tag) of
        Inr plaintext \<Rightarrow> (Inr plaintext, [EvDecrypt key iv (cipher_text @ tag)])
      | Inl first_error \<Rightarrow>
          (aesgcm_decrypt E key iv cipher_text,
           [EvDecrypt key iv (cipher_text @ tag), EvDecrypt key iv cipher_text]))"

text \<open>
  A helper entry whose failure the handler of the loop can report: an object whose name
  (or \<open>unknown\<close> when it has none) the console can print.
\<close>

definition printable_helper :: "env \<Rightarrow> json \<Rightarrow> bool" where
  "printable_helper E helper =
     (case helper of
        JObj h \<Rightarrow> py_print E [dict_get h (str ''name'') (JStr (str ''unknown''))] = Inr ()
      | _ \<Rightarrow> False)"

text \<open>
  What the specification prescribes for one helper, read from the helper object itself: when
  the object has the fields \<open>name\<close>, \<open>encryptedContent\<close>, \<open>iv\<close> and \<open>authTag\<close> and the
  last three are hexadecimal, the two-layout attempts with the envelope's key and the
  helper's own iv and tag and, when they give a plaintext that decodes and the name is a
  string, the write of the content, with its line ends normalised, at the name joined to the
  temporary directory. A helper that fails at any point leaves only the calls made up to
  that point.
\<close>

definition helper_events :: "env \<Rightarrow> bytes \<Rightarrow> pystr \<Rightarrow> json \<Rightarrow> event list" where
  "helper_events E key temp_dir helper =
     (case helper of
        JObj h \<Rightarrow>
          (case (map_of h (str ''name''), map_of h (str ''encryptedContent''),
                 map_of h (str ''iv''), map_of h (str ''authTag'')) of
             (Some name, Some c, Some i, Some a) \<Rightarrow>
               (case (fromhex E c, fromhex E i, fromhex E a) of
                  (Inr cipher_text, Inr iv, Inr tag) \<Rightarrow>
                    snd (two_layout_attempts E key iv cipher_text tag)
                    @ (case (fst (two_layout_attempts E key iv cipher_text tag), name) of
                         (Inr plaintext, JStr n) \<Rightarrow>
                           (case decode_utf8 E plaintext of
                              Inr content \<Rightarrow>
                                [EvWrite (os_path_join E temp_dir n)
                                   (replace_cr (replace_crlf content))]
                            | Inl e \<Rightarrow> [])
                       | _ \<Rightarrow> [])
                | _ \<Rightarrow> [])
           | _ \<Rightarrow> [])
      | _ \<Rightarrow> [])"


text \<open>
  Whether a run removes the file at \<open>path\<close>: one of its \<open>shutil.rmtree\<close> calls is on
  a directory that contains the path. What a directory contains is decided by the
  platform, hence the parameter \<open>inside\<close>.
\<close>

definition removed_by :: "(pystr \<Rightarrow> pystr \<Rightarrow> bool) \<Rightarrow> event list \<Rightarrow> pystr \<Rightarrow> bool" where
  "removed_by inside trace path =
     list_ex (\<lambda>ev. case ev of EvRmtree d \<Rightarrow> inside d path | _ \<Rightarrow> False) trace"

text \<open>
  The encoded image that the enrichment adds to a parsed object: there is one when the
  object has a truthy \<open>success\<close> and a \<open>path\<close> whose value is truthy, names an existing
  file, can be printed and loads as an image; a check, a print or a load that raises gives
  none.
\<close>

definition encoded_image :: "env \<Rightarrow> (pystr \<times> json) list \<Rightarrow> pystr option" where
  "encoded_image E d =
     (case map_of d (str ''path'') of
        None \<Rightarrow> None
      | Some p \<Rightarrow>
          if truthy (case map_of d (str ''success'') of Some v \<Rightarrow> v | None \<Rightarrow> JNull)
             \<and> truthy p \<and> os_path_exists E p = Inr True \<and> py_print E [p] = Inr ()
          then (case image_base64 E p of Inr b \<Rightarrow> Some b | Inl e \<Rightarrow> None)
          else None)"

text \<open>
  A concrete envelope and concrete outcomes of the library calls, for the examples. The
  first helper decrypts at the second attempt; the second helper's content is not
  hexadecimal. The outcome of the process and of \<open>json.loads\<close> are parameters.
\<close>

definition demo_helper_list :: "json list" where
  "demo_helper_list =
     [JObj [(str ''name'', JStr (str ''h.py'')),
            (str ''encryptedContent'', JStr (str ''68'')),
            (str ''iv'', JStr (str ''0d'')),
            (str ''authTag'', JStr (str ''00''))],
      JObj [(str ''name'', JStr (str ''bad.py'')),
            (str ''encryptedContent'', JStr (str ''zz''))]]"

definition demo_fields :: "(pystr \<times> json) list" where
  "demo_fields =
     [(str ''encryptedScript'', JStr (str ''7031'')),
      (str ''iv'', JStr (str ''0c'')),
      (str ''authTag'', JStr (str ''00'')),
      (str ''decryption'', JObj [(str ''key'', JStr (str ''aa''))]),
      (str ''arguments'', JArr [JStr (str ''--json'')]),
      (str ''scriptName'', JStr (str ''main.py'')),
      (str ''helperScripts'', JArr demo_helper_list)]"

definition demo_payload :: json where
  "demo_payload = JObj demo_fields"

definition demo_env :: "(exn + completed) \<Rightarrow> (exn + json) \<Rightarrow> env" where
  "demo_env run_outcome parsed = \<lparr>
     API_KEY = str ''secret'',
     fromhex = (\<lambda>j. if j = JStr (str ''7031'') then Inr [0x70, 0x31]
                    else if j = JStr (str ''68'') then Inr [0x68]
                    else if j = JStr (str ''0c'') then Inr [0x0c]
                    else if j = JStr (str ''0d'') then Inr [0x0d]
                    else if j = JStr (str ''00'') then Inr [0x00]
                    else if j = JStr (str ''aa'') then Inr [0xaa]
                    else Inl (LibraryError (str ''non-hexadecimal number found''))),
     AESGCM = (\<lambda>key. None),
     aesgcm_decrypt = (\<lambda>key nonce data.
        if data \<noteq> [] \<and> last data \<noteq> 0 then Inr data
        else Inl (LibraryError (str ''InvalidTag''))),
     decode_utf8 = (\<lambda>b. Inr (map unat b)),
     mkdtemp = Inr (str ''/tmp/mcp_script_x''),
     os_path_join = (\<lambda>d n. if take 1 n = str ''/'' then n else d @ str ''/'' @ n),
     write_file = (\<lambda>path content. None),
     py_str = (\<lambda>j. case j of JStr s \<Rightarrow> s | _ \<Rightarrow> []),
     subprocess_run = (\<lambda>argv cwd t. run_outcome),
     json_loads = (\<lambda>s. parsed),
     os_path_exists = (\<lambda>p. Inr True),
     image_base64 = (\<lambda>p. Inr (str ''iVBORw0KGgo='')),
     rmtree = (\<lambda>path. None),
     str_exn = (\<lambda>e. case e of LibraryError m \<Rightarrow> m | TimeoutExpired \<Rightarrow> str ''timed out''
                     | _ \<Rightarrow> str ''error''),
     py_int = (\<lambda>s. Inr 0),
     json_loads_bytes = (\<lambda>b. Inr demo_payload),
     json_dumps = (\<lambda>j. str ''{...}''),
     format_exc = (\<lambda>e. []),
     encodable = (\<lambda>c. c < 0xD800 \<or> 0xDFFF < c)\<rparr>"

definition boom :: "exn + completed" where
  "boom = Inr \<lparr>returncode = 1, stdout = str ''partial '', stderr = str ''boom''\<rparr>"

definition not_json :: "exn + json" where
  "not_json = Inl (JSONDecodeError (str ''Expecting value''))"

definition demo_request :: request where
  "demo_request = \<lparr>authorization = Some (str ''Bearer secret''),
                    content_length = Some (str ''0''),
                    rfile_read = (\<lambda>n. Inr [])\<rparr>"

definition demo_events :: "event list" where
  "demo_events =
     [EvDecrypt [0xaa] [0x0c] [0x70, 0x31, 0x00], EvDecrypt [0xaa] [0x0c] [0x70, 0x31],
      EvMkdtemp,
      EvDecrypt [0xaa] [0x0d] [0x68, 0x00], EvDecrypt [0xaa] [0x0d] [0x68],
      EvWrite (str ''/tmp/mcp_script_x/h.py'') (str ''h''),
      EvWrite (str ''/tmp/mcp_script_x/main.py'') (str ''p1''),
      EvRun [str ''python'', str ''/tmp/mcp_script_x/main.py'', str ''--json'']
            (Some (str ''/tmp/mcp_script_x'')) 60]"

text \<open>
  Containment of a path in a directory for paths without \<open>..\<close> components: the path
  begins with the directory and a separator.
\<close>

definition under_prefix :: "pystr \<Rightarrow> pystr \<Rightarrow> bool" where
  "under_prefix dir path = (take (length dir + 1) path = dir @ str ''/'')"

text \<open>
  A script that reports a screenshot, and a script whose output has neither \<open>success\<close>
  nor \<open>path\<close>.
\<close>

definition shot_dict :: "(pystr \<times> json) list" where
  "shot_dict = [(str ''success'', JBool True),
                (str ''path'', JStr (str ''C:/shots/s.png''))]"

definition shot_result :: completed where
  \<open>shot_result = \<lparr>returncode = 0,
     stdout = str ''{"success": true, "path": "C:/shots/s.png"}'',
     stderr = []\<rparr>\<close>

definition plain_dict :: "(pystr \<times> json) list" where
  "plain_dict = [(str ''output'', JStr (str ''done''))]"

definition plain_result :: completed where
  \<open>plain_result = \<lparr>returncode = 0, stdout = str ''{"output": "done"}'', stderr = []\<rparr>\<close>

text \<open>
  Two helpers with absolute names, one elsewhere and one inside the temporary directory.
\<close>

definition outside_helper :: "(pystr \<times> json) list" where
  "outside_helper = [(str ''name'', JStr (str ''/etc/evil.py'')),
                     (str ''encryptedContent'', JStr (str ''68'')),
                     (str ''iv'', JStr (str ''0d'')),
                     (str ''authTag'', JStr (str ''00''))]"

definition inside_helper :: "(pystr \<times> json) list" where
  "inside_helper = [(str ''name'', JStr (str ''/tmp/mcp_script_x/h.py'')),
                    (str ''encryptedContent'', JStr (str ''68'')),
                    (str ''iv'', JStr (str ''0d'')),
                    (str ''authTag'', JStr (str ''00''))]"


text \<open>
  A helper whose name is a lone surrogate and whose content is not hexadecimal.
\<close>

definition surrogate_helper :: json where
  "surrogate_helper = JObj [(str ''name'', JStr [0xD800]),
                            (str ''encryptedContent'', JStr (str ''zz''))]"

section \<open>Properties\<close>

lemma skip_blank_eq:
  "skip_blank lines i = i + length (takeWhile (\<lambda>x. strip x = []) (drop i lines))"
proof (induction lines i rule: skip_blank.induct)
  case (1 lines i)
  show ?case
  proof (cases "i < length lines \<and> strip (lines ! i) = []")
    case True
    then have d: "drop i lines = lines ! i # drop (Suc i) lines"
      by (simp add: Cons_nth_drop_Suc)
    from True 1 show ?thesis
      by (subst skip_blank.simps) (simp add: d)
  next
    case False
    then show ?thesis
      by (subst skip_blank.simps) (auto simp: not_less hd_drop_conv_nth takeWhile_eq_Nil_iff dest: )
  qed
qed

lemma drop_skip_blank:
  "drop (skip_blank lines i) lines = dropWhile (\<lambda>x. strip x = []) (drop i lines)"
proof -
  have "drop (skip_blank lines i) lines
        = drop (length (takeWhile (\<lambda>x. strip x = []) (drop i lines))) (drop i lines)"
    by (simp add: skip_blank_eq add.commute)
  then show ?thesis by (simp add: dropWhile_eq_drop)
qed

lemma fix_loop_eq: "fix_loop lines i fixed_lines = fixed_lines @ repair_lines (drop i lines)"
proof (induction lines i fixed_lines rule: fix_loop.induct)
  case (1 lines i fixed_lines)
  show ?case
  proof (cases "i < length lines")
    case False
    then show ?thesis by (subst fix_loop.simps) simp
  next
    case True
    then have d: "drop i lines = lines ! i # drop (i + 1) lines"
      by (simp add: Cons_nth_drop_Suc)
    let ?j = "skip_blank lines (i + 1)"
    show ?thesis
    proof (cases "endswith (rstrip (lines ! i)) BACKSLASH")
      case False
      with True 1(3) [OF True refl False] show ?thesis
        by (subst fix_loop.simps) (simp add: d)
    next
      case c: True
      have dj: "drop ?j lines = dropWhile (\<lambda>x. strip x = []) (drop (i + 1) lines)"
        by (rule drop_skip_blank)
      show ?thesis
      proof (cases "?j < length lines")
        case j: True
        then have "drop ?j lines = lines ! ?j # drop (?j + 1) lines"
          by (simp add: Cons_nth_drop_Suc)
        with dj have dw: "dropWhile (\<lambda>x. strip x = []) (drop (i + 1) lines)
                          = lines ! ?j # drop (?j + 1) lines"
          by simp
        from 1(1) [OF True refl c refl refl j]
        have "fix_loop lines (?j + 1)
                (butlast (fixed_lines @ [rstrip (lines ! i)])
                 @ [last (fixed_lines @ [rstrip (lines ! i)]) @ [LF] @ lines ! ?j])
              = fixed_lines @ [rstrip (lines ! i) @ [LF] @ lines ! ?j]
                @ repair_lines (drop (?j + 1) lines)"
          by simp
        with True c j show ?thesis
          by (subst fix_loop.simps) (simp add: d dw Let_def del: One_nat_def)
      next
        case j: False
        then have "drop ?j lines = []" by simp
        with dj have dw: "dropWhile (\<lambda>x. strip x = []) (drop (i + 1) lines) = []"
          by simp
        from 1(2) [OF True refl c refl refl j] j
        have "fix_loop lines ?j (fixed_lines @ [rstrip (lines ! i)])
              = fixed_lines @ [rstrip (lines ! i)]"
          by simp
        with True c j show ?thesis
          by (subst fix_loop.simps) (simp add: d dw Let_def del: One_nat_def)
      qed
    qed
  qed
qed

text \<open>
  C5, as the code has it. The repair scans the lines in order. A scanned line whose
  right-stripped content ends with a backslash (one backslash or several) is continued: it is
  emitted right-stripped, the blank lines that follow it are skipped, and the next non-blank
  line is appended to it after a literal newline and consumed without being scanned itself.
  Every scanned line whose right-stripped content does not end with a backslash is emitted
  unchanged. In other words the loop computes \<open>repair_lines\<close> on the lines of the text.
\<close>

theorem fix_line_continuations_scan:
  "fix_line_continuations text = py_join [LF] (repair_lines (py_split LF text))"
  by (simp add: fix_line_continuations_def fix_loop_eq)

text \<open>
  C5 as stated fails: in the text of the three lines \<open>a\\\<close>, an empty line and \<open>b\<close>
  no line ends with a single backslash, so every line would be emitted unchanged; the code
  treats the first line, which ends with two backslashes, as continued and drops the empty
  line.
\<close>

theorem double_backslash_counterexample:
  "py_split LF [97, 92, 92, 10, 10, 98] = [[97, 92, 92], [], [98]]
   \<and> \<not> ends_with_single_backslash (rstrip [97, 92, 92])
   \<and> \<not> ends_with_single_backslash (rstrip [])
   \<and> \<not> ends_with_single_backslash (rstrip [98])
   \<and> fix_line_continuations [97, 92, 92, 10, 10, 98] = [97, 92, 92, 10, 98]
   \<and> fix_line_continuations [97, 92, 92, 10, 10, 98] \<noteq> [97, 92, 92, 10, 10, 98]"
  by (simp add: ends_with_single_backslash_def endswith_def rstrip_def strip_def isspace_def
      fix_line_continuations_def fix_loop_eq)

lemma py_split_not_Nil: "py_split sep s \<noteq> []"
  by (induction s) (auto split: list.splits)

lemma py_split_no_sep: "sep \<notin> set s \<Longrightarrow> py_split sep s = [s]"
  by (induction s) auto

lemma py_split_append: "py_split sep (a @ sep # b) = py_split sep a @ py_split sep b"
  by (induction a) (auto split: list.splits simp: py_split_not_Nil)

lemma py_split_sep_free: "l \<in> set (py_split sep s) \<Longrightarrow> sep \<notin> set l"
  by (induction s arbitrary: l) (auto split: if_splits list.splits)

lemma py_split_join:
  "xs \<noteq> [] \<Longrightarrow> py_split sep (py_join [sep] xs) = concat (map (py_split sep) xs)"
  by (induction "[sep]" xs rule: py_join.induct) (auto simp: py_split_append)

lemma rstrip_idem: "rstrip (rstrip s) = rstrip s"
  by (simp add: rstrip_def)

lemma set_rstrip: "set (rstrip s) \<subseteq> set s"
  unfolding rstrip_def using set_dropWhileD by fastforce

lemma repair_lines_Nil_iff: "repair_lines ls = [] \<longleftrightarrow> ls = []"
  by (cases ls) (auto split: list.splits)

lemma repair_lines_flat:
  "(\<And>l. l \<in> set ls \<Longrightarrow> LF \<notin> set l) \<Longrightarrow>
   repair_lines (concat (map (py_split LF) (repair_lines ls))) = repair_lines ls"
proof (induction ls rule: repair_lines.induct)
  case 1
  show ?case by simp
next
  case (2 l ls)
  have l: "LF \<notin> set l" using 2(3) by simp
  then have rl: "LF \<notin> set (rstrip l)" using set_rstrip by blast
  show ?case
  proof (cases "endswith (rstrip l) BACKSLASH")
    case False
    have "repair_lines (concat (map (py_split LF) (repair_lines ls))) = repair_lines ls"
      using 2(2) [OF False] 2(3) by simp
    with False l show ?thesis by (simp add: py_split_no_sep)
  next
    case c: True
    show ?thesis
    proof (cases "dropWhile (\<lambda>x. strip x = []) ls")
      case Nil
      have e: "repair_lines (l # ls) = [rstrip l]"
        by (simp only: repair_lines.simps c Nil if_True list.case)
      have a: "py_split LF (rstrip l) = [rstrip l]"
        using rl by (rule py_split_no_sep)
      have b: "repair_lines [rstrip l] = [rstrip l]"
        using c by (simp add: rstrip_idem)
      show ?thesis
        unfolding e by (simp only: list.map concat.simps append_Nil2 a b)
    next
      case (Cons n rest)
      have nb: "strip n \<noteq> []"
        using hd_dropWhile [of "\<lambda>x. strip x = []" ls] unfolding Cons by simp
      have "set (dropWhile (\<lambda>x. strip x = []) ls) \<subseteq> set ls"
        by (auto dest: set_dropWhileD)
      then have "set (n # rest) \<subseteq> set ls"
        by (simp only: Cons)
      then have n: "LF \<notin> set n" and rest: "\<And>x. x \<in> set rest \<Longrightarrow> LF \<notin> set x"
        using 2(3) by auto
      have ih: "repair_lines (concat (map (py_split LF) (repair_lines rest))) = repair_lines rest"
        using 2(1) [OF c Cons] rest by simp
      have e: "repair_lines (l # ls) = (rstrip l @ [LF] @ n) # repair_lines rest"
        by (simp only: repair_lines.simps c Cons if_True list.case)
      have sp: "py_split LF (rstrip l @ LF # n) = [rstrip l, n]"
        using rl n by (simp add: py_split_append py_split_no_sep)
      have "repair_lines (rstrip l # n # concat (map (py_split LF) (repair_lines rest)))
            = (rstrip l @ [LF] @ n) # repair_lines rest"
        using c nb ih by (simp add: rstrip_idem)
      then show ?thesis
        unfolding e by (simp only: list.map concat.simps sp append_Cons append_Nil)
    qed
  qed
qed

text \<open>
  C4. The repair is idempotent: applied to its own output it returns that output.
\<close>

theorem fix_line_continuations_idempotent:
  "fix_line_continuations (fix_line_continuations text) = fix_line_continuations text"
proof -
  let ?ls = "py_split LF text"
  have ne: "repair_lines ?ls \<noteq> []"
    by (simp add: repair_lines_Nil_iff py_split_not_Nil)
  have "py_split LF (py_join [LF] (repair_lines ?ls))
        = concat (map (py_split LF) (repair_lines ?ls))"
    using ne by (rule py_split_join)
  moreover have "repair_lines (concat (map (py_split LF) (repair_lines ?ls))) = repair_lines ?ls"
    by (rule repair_lines_flat) (rule py_split_sep_free)
  ultimately show ?thesis
    by (simp add: fix_line_continuations_def fix_loop_eq)
qed

lemma str_eq_iff [simp]: "str a = str b \<longleftrightarrow> a = b"
  by (simp add: str_def inj_map_eq_map [OF inj_of_char])

lemma str_Nil_iff [simp]: "str a = [] \<longleftrightarrow> a = []" "[] = str a \<longleftrightarrow> a = []"
  by (auto simp: str_def)

lemma io_bind_pure [simp]:
  "io_bind (pure (Inr v)) f = f v" "io_bind (pure (Inl e)) f = (Inl e, [])"
  by (simp_all add: io_bind_def pure_def split: prod.splits)

lemma io_bind_ret [simp]: "io_bind (ret v) f = f v"
  by (simp add: io_bind_def ret_def split: prod.splits)

lemma io_bind_raise [simp]: "io_bind (raise e) f = (Inl e, [])"
  by (simp add: io_bind_def raise_def)

lemma io_bind_call [simp]:
  "io_bind (call ev (Inr v)) f = (fst (f v), ev # snd (f v))"
  "io_bind (call ev (Inl e)) f = (Inl e, [ev])"
  by (simp_all add: io_bind_def call_def split: prod.splits)

lemma io_bind_pair [simp]:
  "io_bind (Inr v, t) f = (fst (f v), t @ snd (f v))"
  "io_bind (Inl e, t) f = (Inl e, t)"
  by (simp_all add: io_bind_def split: prod.splits)

lemma try_except_pair [simp]:
  "try_except (Inr v, t) h = (Inr v, t)"
  "try_except (Inl e, t) h = (fst (h e), t @ snd (h e))"
  by (simp_all add: try_except_def split: prod.splits)

lemma cleanup_eq: "cleanup E temp_dir = (Inr (), [EvRmtree temp_dir])"
  by (cases "rmtree E temp_dir") (simp_all add: cleanup_def call_def outcome_def ret_def)

lemma try_finally_cleanup:
  "try_finally m (cleanup E temp_dir) = (fst m, snd m @ [EvRmtree temp_dir])"
  by (simp add: try_finally_def cleanup_eq split: prod.splits)

text \<open>
  C2. A request to \<open>/execute-encrypted\<close> whose \<open>Authorization\<close> header is missing,
  does not start with \<open>Bearer \<close>, or carries a token different from the configured
  secret is answered with 401, and that response is the whole run: the body is not read, so
  no JSON decoding, hex decoding, decryption, file write or process start takes place,
  whatever the body and the rest of the request are.
\<close>

theorem unauthorized_is_401:
  assumes "authorization req = None
           \<or> (\<exists>h. authorization req = Some h
                  \<and> (take 7 h \<noteq> str ''Bearer '' \<or> drop 7 h \<noteq> API_KEY E))"
  shows "handle_encrypted_execution E req = (Inr (), [EvSend 401 unauthorized_body])"
  using assms by (auto simp: handle_encrypted_execution_def call_def str_def)

lemma kinds_simps [simp]:
  "kinds (ret v) = {}" "kinds (raise e) = {}" "kinds (pure r) = {}" "kinds (call ev r) = {kind ev}"
  "kinds (x, t) = kind ` set t"
  by (simp_all add: kinds_def ret_def raise_def pure_def call_def)

lemma fst_simps [simp]:
  "fst (ret v) = Inr v" "fst (raise e) = Inl e" "fst (pure r) = r" "fst (call ev r) = r"
  by (simp_all add: ret_def raise_def pure_def call_def)

lemma snd_simps [simp]:
  "snd (ret v) = []" "snd (raise e) = []" "snd (pure r) = []" "snd (call ev r) = [ev]"
  by (simp_all add: ret_def raise_def pure_def call_def)

lemma fst_io_bind: "fst (io_bind m f) = (case fst m of Inl e \<Rightarrow> Inl e | Inr v \<Rightarrow> fst (f v))"
  by (simp add: io_bind_def split: prod.splits sum.splits)

lemma snd_io_bind:
  "snd (io_bind m f) = snd m @ (case fst m of Inl e \<Rightarrow> [] | Inr v \<Rightarrow> snd (f v))"
  by (simp add: io_bind_def split: prod.splits sum.splits)

lemma fst_try_except:
  "fst (try_except m h) = (case fst m of Inl e \<Rightarrow> fst (h e) | Inr v \<Rightarrow> Inr v)"
  by (simp add: try_except_def split: prod.splits sum.splits)

lemma snd_try_except:
  "snd (try_except m h) = snd m @ (case fst m of Inl e \<Rightarrow> snd (h e) | Inr v \<Rightarrow> [])"
  by (simp add: try_except_def split: prod.splits sum.splits)

lemma kinds_io_bind:
  "kinds (io_bind m f) = kinds m \<union> (case fst m of Inl e \<Rightarrow> {} | Inr v \<Rightarrow> kinds (f v))"
  by (auto simp: kinds_def snd_io_bind split: sum.splits)

lemma kinds_try_except:
  "kinds (try_except m h) = kinds m \<union> (case fst m of Inl e \<Rightarrow> kinds (h e) | Inr v \<Rightarrow> {})"
  by (auto simp: kinds_def snd_try_except split: sum.splits)

lemma two_layout_eq:
  "try_except (decrypt E key iv (ct @ tag)) (\<lambda>e. decrypt E key iv ct)
   = two_layout_attempts E key iv ct tag"
  by (simp add: try_except_def decrypt_def call_def two_layout_attempts_def split: sum.splits)

lemma kinds_io_bind_le:
  "kinds m \<subseteq> S \<Longrightarrow> (\<And>v. kinds (f v) \<subseteq> S) \<Longrightarrow> kinds (io_bind m f) \<subseteq> S"
  by (auto simp: kinds_io_bind split: sum.splits)

lemma kinds_try_except_le:
  "kinds m \<subseteq> S \<Longrightarrow> (\<And>e. kinds (h e) \<subseteq> S) \<Longrightarrow> kinds (try_except m h) \<subseteq> S"
  by (auto simp: kinds_try_except split: sum.splits)

lemma kinds_two_layout: "Decrypt \<in> S \<Longrightarrow> kinds (two_layout_attempts E key iv ct tag) \<subseteq> S"
  by (simp add: two_layout_attempts_def split: sum.splits)

lemma kinds_materialize_helper:
  "Decrypt \<in> S \<Longrightarrow> Write \<in> S \<Longrightarrow> kinds (materialize_helper E key tmp h) \<subseteq> S"
  unfolding materialize_helper_def two_layout_eq
  by ((intro kinds_try_except_le kinds_io_bind_le kinds_two_layout
       | simp add: split_beta Let_def open_write_def)+)

lemma kinds_materialize_helpers:
  "Decrypt \<in> S \<Longrightarrow> Write \<in> S \<Longrightarrow> kinds (materialize_helpers E key tmp hs) \<subseteq> S"
  by (induction hs) (simp_all add: kinds_io_bind_le kinds_materialize_helper)

lemma kinds_add_base64:
  "Exists \<in> S \<Longrightarrow> LoadImage \<in> S \<Longrightarrow> kinds (add_base64_screenshot E d) \<subseteq> S"
  unfolding add_base64_screenshot_def
  by ((intro kinds_try_except_le kinds_io_bind_le conjI impI | simp add: Let_def)+)

lemma kinds_powershell: "Run \<in> S \<Longrightarrow> kinds (execute_powershell E d) \<subseteq> S"
  unfolding execute_powershell_def
  by ((intro kinds_io_bind_le | simp add: Let_def)+)

lemma kinds_normalize:
  "Exists \<in> S \<Longrightarrow> LoadImage \<in> S \<Longrightarrow> kinds (normalize_result E result) \<subseteq> S"
  unfolding normalize_result_def
  by ((intro kinds_try_except_le kinds_io_bind_le kinds_add_base64 conjI impI allI
       | simp split: json.splits exn.splits)+)

lemma kinds_run_main:
  "Write \<in> S \<Longrightarrow> Run \<in> S \<Longrightarrow> Exists \<in> S \<Longrightarrow> LoadImage \<in> S \<Longrightarrow>
   kinds (run_main_script E tmp name content args) \<subseteq> S"
  unfolding run_main_script_def
  by ((intro kinds_io_bind_le kinds_normalize | simp add: Let_def open_write_def)+)

lemma dae_structure:
  "decrypt_and_execute E payload =
     (case extract_fields E payload of
        Inl e \<Rightarrow> (Inr (failure_response E e), [])
      | Inr (encrypted_data, iv, auth_tag, key, script_type, arguments, script_name, helper_scripts) \<Rightarrow>
          (case fst (two_layout_attempts E key iv encrypted_data auth_tag) of
             Inl e \<Rightarrow> (Inr (failure_response E e),
                       snd (two_layout_attempts E key iv encrypted_data auth_tag))
           | Inr decrypted \<Rightarrow>
               (let m = (if script_type = JStr (str ''powershell'')
                         then execute_powershell E decrypted
                         else execute_python E key decrypted arguments script_name helper_scripts)
                in (case fst m of Inl e \<Rightarrow> Inr (failure_response E e) | Inr r \<Rightarrow> Inr r,
                    snd (two_layout_attempts E key iv encrypted_data auth_tag) @ snd m))))"
  by (rule prod_eqI)
     (simp_all add: decrypt_and_execute_def two_layout_eq fst_try_except snd_try_except
        fst_io_bind snd_io_bind split_beta Let_def split: sum.splits)

lemma execute_python_structure:
  "execute_python E key decrypted arguments script_name helper_scripts =
     (case decode_utf8 E decrypted of
        Inl e \<Rightarrow> (Inl e, [])
      | Inr script_content \<Rightarrow>
          (case mkdtemp E of
             Inl e \<Rightarrow> (Inl e, [EvMkdtemp])
           | Inr temp_dir \<Rightarrow>
               (let body = script_steps E key temp_dir helper_scripts script_name
                             (clean_script script_content) arguments
                in (fst body, EvMkdtemp # snd body @ [EvRmtree temp_dir]))))"
  by (rule prod_eqI)
     (simp_all add: execute_python_def try_finally_cleanup fst_io_bind snd_io_bind Let_def
        split: sum.splits)

lemma kinds_script_steps:
  "Decrypt \<in> S \<Longrightarrow> Write \<in> S \<Longrightarrow> Run \<in> S \<Longrightarrow> Exists \<in> S \<Longrightarrow> LoadImage \<in> S \<Longrightarrow>
   kinds (script_steps E key tmp hs name content args) \<subseteq> S"
  unfolding script_steps_def
  by ((intro kinds_io_bind_le kinds_materialize_helpers kinds_run_main | simp)+)

lemma tuple8:
  obtains a b c d e f g h where "y = (a, b, c, d, e, f, g, h)"
proof -
  have "y = (fst y, fst (snd y), fst (snd (snd y)), fst (snd (snd (snd y))),
             fst (snd (snd (snd (snd y)))), fst (snd (snd (snd (snd (snd y))))),
             fst (snd (snd (snd (snd (snd (snd y)))))),
             snd (snd (snd (snd (snd (snd (snd y)))))))"
    by simp
  then show ?thesis by (rule that)
qed

lemma dae_never_raises: "\<exists>r. fst (decrypt_and_execute E payload) = Inr r"
  by (simp add: dae_structure split_beta Let_def split: sum.splits)

lemma no_kind: "kinds m \<subseteq> S \<Longrightarrow> k \<notin> S \<Longrightarrow> \<forall>ev\<in>set (snd m). kind ev \<noteq> k"
  by (auto simp: kinds_def)

lemma no_kind_events:
  assumes "\<forall>ev\<in>set t. kind ev \<noteq> Mkdtemp \<and> kind ev \<noteq> Rmtree \<and> kind ev \<noteq> Send"
  shows "EvMkdtemp \<notin> set t" "EvRmtree d \<notin> set t" "EvSend s b \<notin> set t"
  using assms by auto

lemma dae_temp_dir:
  assumes m: "EvMkdtemp \<in> set (snd (decrypt_and_execute E payload))"
    and t: "mkdtemp E = Inr tmp"
  shows "\<exists>t resp. decrypt_and_execute E payload = (Inr resp, t @ [EvRmtree tmp])
           \<and> (\<forall>d. EvRmtree d \<notin> set t) \<and> (\<forall>s b. EvSend s b \<notin> set t)"
proof (cases "extract_fields E payload")
  case (Inl e)
  with m show ?thesis by (simp add: dae_structure Let_def)
next
  case (Inr x)
  obtain ed iv tag key st args name hs where x: "x = (ed, iv, tag, key, st, args, name, hs)"
    by (rule tuple8)
  let ?tl = "two_layout_attempts E key iv ed tag"
  have ktl: "kinds ?tl \<subseteq> {Decrypt}" by (rule kinds_two_layout) simp
  have "\<forall>ev\<in>set (snd ?tl). kind ev \<noteq> Mkdtemp \<and> kind ev \<noteq> Rmtree \<and> kind ev \<noteq> Send"
    using no_kind [OF ktl, of Mkdtemp] no_kind [OF ktl, of Rmtree] no_kind [OF ktl, of Send]
    by simp
  note notl = no_kind_events [OF this]
  show ?thesis
  proof (cases "fst ?tl")
    case (Inl e)
    with m Inr x notl show ?thesis by (simp add: dae_structure Let_def)
  next
    case dec: (Inr decrypted)
    show ?thesis
    proof (cases "st = JStr (str ''powershell'')")
      case True
      have "kinds (execute_powershell E decrypted) \<subseteq> {Run}"
        by (rule kinds_powershell) simp
      from no_kind [OF this, of Mkdtemp]
      have "EvMkdtemp \<notin> set (snd (execute_powershell E decrypted))"
        by auto
      with m Inr x dec True notl show ?thesis by (simp add: dae_structure Let_def)
    next
      case False
      from m Inr x dec False notl
      have mp: "EvMkdtemp \<in> set (snd (execute_python E key decrypted args name hs))"
        by (simp add: dae_structure Let_def)
      then obtain sc where sc: "decode_utf8 E decrypted = Inr sc"
        by (cases "decode_utf8 E decrypted") (simp_all add: execute_python_structure)
      let ?body = "script_steps E key tmp hs name (clean_script sc) args"
      have kb: "kinds ?body \<subseteq> {Decrypt, Write, Run, Exists, LoadImage}"
        by (rule kinds_script_steps) simp_all
      have "\<forall>ev\<in>set (snd ?body). kind ev \<noteq> Mkdtemp \<and> kind ev \<noteq> Rmtree \<and> kind ev \<noteq> Send"
        using no_kind [OF kb, of Mkdtemp] no_kind [OF kb, of Rmtree] no_kind [OF kb, of Send]
        by simp
      note nob = no_kind_events [OF this]
      have ep: "execute_python E key decrypted args name hs
                = (fst ?body, EvMkdtemp # snd ?body @ [EvRmtree tmp])"
        using sc t by (simp add: execute_python_structure Let_def)
      let ?t = "snd ?tl @ EvMkdtemp # snd ?body"
      let ?resp = "case fst ?body of Inl e \<Rightarrow> failure_response E e | Inr r \<Rightarrow> r"
      have eq: "decrypt_and_execute E payload = (Inr ?resp, ?t @ [EvRmtree tmp])"
        using Inr x dec False ep by (simp add: dae_structure Let_def split: sum.splits)
      have n1: "\<forall>d. EvRmtree d \<notin> set ?t"
        using notl nob by simp
      have n2: "\<forall>s b. EvSend s b \<notin> set ?t"
        using notl nob by simp
      from eq n1 n2 show ?thesis by blast
    qed
  qed
qed

lemmas weak_congs =
  if_weak_cong let_weak_cong sum.case_cong_weak json.case_cong_weak option.case_cong_weak
  exn.case_cong_weak prod.case_cong_weak

lemma rmtree_print [simp]:
  "str_value (E\<lparr>rmtree := r\<rparr>) = str_value E"
  "py_print (E\<lparr>rmtree := r\<rparr>) = py_print E"
  by (rule ext, simp add: str_value_def py_print_def cong del: weak_congs)+

lemma rmtree_basic [simp]:
  "path_join (E\<lparr>rmtree := r\<rparr>) d n = path_join E d n"
  "helper_fields (E\<lparr>rmtree := r\<rparr>) h = helper_fields E h"
  "decrypt (E\<lparr>rmtree := r\<rparr>) k i c = decrypt E k i c"
  "open_write (E\<lparr>rmtree := r\<rparr>) p txt = open_write E p txt"
  "extract_fields (E\<lparr>rmtree := r\<rparr>) payload = extract_fields E payload"
  "two_layout_attempts (E\<lparr>rmtree := r\<rparr>) k i c t = two_layout_attempts E k i c t"
  "add_base64_screenshot (E\<lparr>rmtree := r\<rparr>) d' = add_base64_screenshot E d'"
  "execute_powershell (E\<lparr>rmtree := r\<rparr>) dec = execute_powershell E dec"
  "failure_response (E\<lparr>rmtree := r\<rparr>) e = failure_response E e"
  by (simp_all add: path_join_def helper_fields_def decrypt_def open_write_def
        extract_fields_def two_layout_attempts_def add_base64_screenshot_def
        execute_powershell_def failure_response_def cong del: weak_congs)

lemma rmtree_normalize [simp]:
  "normalize_result (E\<lparr>rmtree := r\<rparr>) = normalize_result E"
  by (rule ext) (simp add: normalize_result_def cong del: weak_congs)

lemma rmtree_materialize_helpers [simp]:
  "materialize_helpers (E\<lparr>rmtree := r\<rparr>) key tmp = materialize_helpers E key tmp"
proof (rule ext)
  fix hs
  show "materialize_helpers (E\<lparr>rmtree := r\<rparr>) key tmp hs = materialize_helpers E key tmp hs"
    by (induction hs) (simp_all add: materialize_helper_def)
qed

lemma rmtree_script_steps [simp]:
  "script_steps (E\<lparr>rmtree := r\<rparr>) key tmp hs name content args
   = script_steps E key tmp hs name content args"
  by (simp add: script_steps_def run_main_script_def)

lemma rmtree_execute_python [simp]:
  "execute_python (E\<lparr>rmtree := r\<rparr>) key decrypted args name hs
   = execute_python E key decrypted args name hs"
  by (simp add: execute_python_structure cong del: weak_congs)

lemma rmtree_decrypt_and_execute:
  "decrypt_and_execute (E\<lparr>rmtree := r\<rparr>) payload = decrypt_and_execute E payload"
  by (simp add: dae_structure cong del: weak_congs)

lemma rmtree_handle:
  "handle_encrypted_execution (E\<lparr>rmtree := r\<rparr>) req = handle_encrypted_execution E req"
  by (simp add: handle_encrypted_execution_def rmtree_decrypt_and_execute
        cong del: weak_congs)

lemma handle_structure:
  assumes "authorization req = Some h" "take 7 h = str ''Bearer ''" "drop 7 h = API_KEY E"
  shows "handle_encrypted_execution E req =
     (let server_error = (\<lambda>e. EvSend 500 (json_dumps E (JObj
                        [(str ''success'', JBool False),
                         (str ''error'', JStr (str_exn E e)),
                         (str ''trace'', JStr (format_exc E e))])))
      in case py_int E (content_length req) of
        Inl e \<Rightarrow> (Inr (), [server_error e])
      | Inr n \<Rightarrow>
          (case rfile_read req n of
             Inl e \<Rightarrow> (Inr (), [EvRead n, server_error e])
           | Inr body \<Rightarrow>
               (case json_loads_bytes E body of
                  Inl e \<Rightarrow> (Inr (), [EvRead n, server_error e])
                | Inr payload \<Rightarrow>
                    (case fst (decrypt_and_execute E payload) of
                       Inl e \<Rightarrow> (Inr (), EvRead n # snd (decrypt_and_execute E payload)
                                          @ [server_error e])
                     | Inr result \<Rightarrow>
                         (Inr (), EvRead n # snd (decrypt_and_execute E payload)
                                  @ [EvSend 200 (json_dumps E result)])))))"
  using assms
  by (intro prod_eqI)
     (simp_all add: handle_encrypted_execution_def fst_try_except snd_try_except
        fst_io_bind snd_io_bind Let_def split: sum.splits)

text \<open>
  C1. Whenever the handling of a request reaches \<open>tempfile.mkdtemp\<close> and the directory is
  created, the run ends with \<open>shutil.rmtree\<close> of that directory followed by the 200
  response. The removal is the last call before the response is sent and the only removal
  of the run; this holds on every path through the helpers, the main script, the execution
  and the normalisation of its output, since nothing is assumed about their outcomes. What
  the removal itself returns or raises changes neither the response nor the rest of the
  run, and the request is never answered with 500 because of it.
\<close>

theorem temp_dir_removed_before_response:
  assumes "EvMkdtemp \<in> set (snd (handle_encrypted_execution E req))"
    and "mkdtemp E = Inr temp_dir"
  shows "\<exists>t response.
           handle_encrypted_execution E req
             = (Inr (), t @ [EvRmtree temp_dir, EvSend 200 (json_dumps E response)])
           \<and> (\<forall>d. EvRmtree d \<notin> set t) \<and> (\<forall>s b. EvSend s b \<notin> set t)
           \<and> (\<forall>r. handle_encrypted_execution (E\<lparr>rmtree := r\<rparr>) req
                    = handle_encrypted_execution E req)"
proof -
  let ?h = "case authorization req of Some h \<Rightarrow> h | None \<Rightarrow> []"
  have auth: "take 7 ?h = str ''Bearer '' \<and> drop 7 ?h = API_KEY E"
    using assms(1) by (auto simp: handle_encrypted_execution_def Let_def split: if_splits)
  then obtain h where h: "authorization req = Some h" "take 7 h = str ''Bearer ''"
      "drop 7 h = API_KEY E"
    by (cases "authorization req") (auto simp: str_def)
  note hs = handle_structure [OF h]
  from assms(1) obtain n where n: "py_int E (content_length req) = Inr n"
    by (cases "py_int E (content_length req)") (simp_all add: hs Let_def)
  from assms(1) n obtain body where body: "rfile_read req n = Inr body"
    by (cases "rfile_read req n") (simp_all add: hs Let_def)
  from assms(1) n body obtain payload where payload: "json_loads_bytes E body = Inr payload"
    by (cases "json_loads_bytes E body") (simp_all add: hs Let_def)
  have "EvMkdtemp \<in> set (snd (decrypt_and_execute E payload))"
    using assms(1) n body payload by (simp add: hs Let_def split: sum.splits)
  from dae_temp_dir [OF this assms(2)] obtain t resp where
    d: "decrypt_and_execute E payload = (Inr resp, t @ [EvRmtree temp_dir])"
    and n1: "\<forall>d. EvRmtree d \<notin> set t" and n2: "\<forall>s b. EvSend s b \<notin> set t"
    by blast
  have eq: "handle_encrypted_execution E req
            = (Inr (), (EvRead n # t) @ [EvRmtree temp_dir, EvSend 200 (json_dumps E resp)])"
    using n body payload d by (simp add: hs Let_def)
  have m1: "\<forall>d. EvRmtree d \<notin> set (EvRead n # t)" using n1 by simp
  have m2: "\<forall>s b. EvSend s b \<notin> set (EvRead n # t)" using n2 by simp
  have m3: "\<forall>r. handle_encrypted_execution (E\<lparr>rmtree := r\<rparr>) req
                = handle_encrypted_execution E req"
    by (simp add: rmtree_handle)
  from eq m1 m2 m3 show ?thesis by blast
qed

lemma run_main_script_Run:
  assumes "EvRun argv cwd tmo \<in> set (snd (run_main_script E tmp name content args))"
  shows "tmo = 60 \<and> cwd = Some tmp \<and> take 1 argv = [str ''python'']
         \<and> fst (run_main_script E tmp name content args)
             = (case subprocess_run E argv cwd tmo of
                  Inl e \<Rightarrow> Inl e
                | Inr result \<Rightarrow> fst (normalize_result E result))"
proof -
  have kn: "\<forall>ev\<in>set (snd (normalize_result E result)). kind ev \<noteq> Run" for result
    by (rule no_kind [OF kinds_normalize [of "{Exists, LoadImage}"]]) simp_all
  have nr: "EvRun argv cwd tmo \<notin> set (snd (normalize_result E result))" for result
    using kn [of result] by auto
  from assms obtain p where p: "path_join E tmp name = Inr p"
    by (cases "path_join E tmp name") (simp_all add: run_main_script_def)
  from assms p have w: "write_file E p content = None"
    by (cases "write_file E p content")
       (simp_all add: run_main_script_def open_write_def outcome_def)
  from assms p w have pr: "py_print E [name] = Inr ()"
    by (cases "py_print E [name]")
       (simp_all add: run_main_script_def open_write_def outcome_def)
  from assms p w pr obtain as where as: "py_iter args = Inr as"
    by (cases "py_iter args")
       (simp_all add: run_main_script_def open_write_def outcome_def)
  let ?cmd = "[str ''python'', p] @ map (str_value E) as"
  have rm: "run_main_script E tmp name content args
            = (case subprocess_run E ?cmd (Some tmp) 60 of
                 Inl e \<Rightarrow> (Inl e, [EvWrite p content, EvRun ?cmd (Some tmp) 60])
               | Inr result \<Rightarrow> (fst (normalize_result E result),
                    [EvWrite p content, EvRun ?cmd (Some tmp) 60]
                    @ snd (normalize_result E result)))"
    using p w pr as
    by (simp add: run_main_script_def open_write_def outcome_def Let_def split: sum.splits)
  from assms have "EvRun argv cwd tmo = EvRun ?cmd (Some tmp) 60"
    using nr by (auto simp: rm split: sum.splits)
  then have e: "argv = ?cmd" "cwd = Some tmp" "tmo = 60" by simp_all
  show ?thesis
    unfolding e by (simp add: rm split: sum.splits)
qed

lemma script_steps_Run:
  assumes "EvRun argv cwd tmo \<in> set (snd (script_steps E key tmp hs name content args))"
  shows "tmo = 60 \<and> cwd = Some tmp \<and> take 1 argv = [str ''python'']
         \<and> fst (script_steps E key tmp hs name content args)
             = (case subprocess_run E argv cwd tmo of
                  Inl e \<Rightarrow> Inl e
                | Inr result \<Rightarrow> fst (normalize_result E result))"
proof -
  let ?H = "io_bind (pure (py_iter hs)) (materialize_helpers E key tmp)"
  have "kinds ?H \<subseteq> {Decrypt, Write}"
    by ((intro kinds_io_bind_le kinds_materialize_helpers | simp)+)
  from no_kind [OF this, of Run] have nh: "EvRun argv cwd tmo \<notin> set (snd ?H)"
    by auto
  have s: "snd (script_steps E key tmp hs name content args)
           = snd ?H @ (case fst ?H of Inl e \<Rightarrow> []
                       | Inr u \<Rightarrow> snd (run_main_script E tmp name content args))"
    and f: "fst (script_steps E key tmp hs name content args)
           = (case fst ?H of Inl e \<Rightarrow> Inl e
              | Inr u \<Rightarrow> fst (run_main_script E tmp name content args))"
    unfolding script_steps_def by (rule snd_io_bind, rule fst_io_bind)
  from assms nh obtain u where u: "fst ?H = Inr u"
    and r: "EvRun argv cwd tmo \<in> set (snd (run_main_script E tmp name content args))"
    unfolding s by (cases "fst ?H") auto
  from run_main_script_Run [OF r] u show ?thesis
    unfolding f by simp
qed

lemma execute_powershell_Run:
  assumes "EvRun argv cwd tmo \<in> set (snd (execute_powershell E decrypted))"
  shows "tmo = 30 \<and> cwd = None \<and> take 2 argv = [str ''powershell'', str ''-Command'']"
  using assms
  by (auto simp: execute_powershell_def snd_io_bind Let_def split: sum.splits)

lemma two_layout_no_Run: "EvRun argv cwd tmo \<notin> set (snd (two_layout_attempts E key iv ct tag))"
  by (simp add: two_layout_attempts_def split: sum.splits)

lemma execute_python_Run:
  assumes "EvRun argv cwd tmo \<in> set (snd (execute_python E key decrypted args name hs))"
  shows "tmo = 60 \<and> (\<exists>tmp. mkdtemp E = Inr tmp \<and> cwd = Some tmp) \<and> take 1 argv = [str ''python'']
         \<and> fst (execute_python E key decrypted args name hs)
             = (case subprocess_run E argv cwd tmo of
                  Inl e \<Rightarrow> Inl e
                | Inr result \<Rightarrow> fst (normalize_result E result))"
proof -
  from assms obtain sc where sc: "decode_utf8 E decrypted = Inr sc"
    by (cases "decode_utf8 E decrypted") (simp_all add: execute_python_structure)
  from assms sc obtain tmp where tmp: "mkdtemp E = Inr tmp"
    by (cases "mkdtemp E") (simp_all add: execute_python_structure)
  let ?body = "script_steps E key tmp hs name (clean_script sc) args"
  have ep: "execute_python E key decrypted args name hs
            = (fst ?body, EvMkdtemp # snd ?body @ [EvRmtree tmp])"
    using sc tmp by (simp add: execute_python_structure Let_def)
  from assms have "EvRun argv cwd tmo \<in> set (snd ?body)"
    unfolding ep by simp
  from script_steps_Run [OF this] tmp show ?thesis
    unfolding ep by simp
qed

lemma dae_Run:
  assumes "EvRun argv cwd tmo \<in> set (snd (decrypt_and_execute E payload))"
  shows "(tmo = 30 \<and> cwd = None \<and> take 2 argv = [str ''powershell'', str ''-Command'']
          \<and> (\<exists>d. payload = JObj d
                  \<and> map_of d (str ''type'') = Some (JStr (str ''powershell''))))
         \<or> (tmo = 60 \<and> (\<exists>tmp. mkdtemp E = Inr tmp \<and> cwd = Some tmp)
             \<and> take 1 argv = [str ''python'']
             \<and> fst (decrypt_and_execute E payload)
                 = (case subprocess_run E argv cwd tmo of
                      Inl e \<Rightarrow> Inr (failure_response E e)
                    | Inr result \<Rightarrow>
                        (case fst (normalize_result E result) of
                           Inl e \<Rightarrow> Inr (failure_response E e)
                         | Inr r \<Rightarrow> Inr r)))"
proof (cases "extract_fields E payload")
  case (Inl e)
  with assms show ?thesis by (simp add: dae_structure)
next
  case (Inr x)
  obtain ed iv tag key st args name hs where x: "x = (ed, iv, tag, key, st, args, name, hs)"
    by (rule tuple8)
  let ?tl = "two_layout_attempts E key iv ed tag"
  note ntl = two_layout_no_Run [of argv cwd tmo E key iv ed tag]
  show ?thesis
  proof (cases "fst ?tl")
    case (Inl e)
    with assms Inr x ntl show ?thesis by (simp add: dae_structure)
  next
    case dec: (Inr decrypted)
    show ?thesis
    proof (cases "st = JStr (str ''powershell'')")
      case True
      with assms Inr x dec ntl
      have "EvRun argv cwd tmo \<in> set (snd (execute_powershell E decrypted))"
        by (simp add: dae_structure Let_def)
      note r = execute_powershell_Run [OF this]
      from Inr x True have "\<exists>d. payload = JObj d
                  \<and> map_of d (str ''type'') = Some (JStr (str ''powershell''))"
        by (auto simp: extract_fields_def sum_bind_def get_method_def
              split: sum.splits json.splits option.splits if_splits)
      with r show ?thesis by simp
    next
      case False
      with assms Inr x dec ntl
      have "EvRun argv cwd tmo \<in> set (snd (execute_python E key decrypted args name hs))"
        by (simp add: dae_structure Let_def)
      note r = execute_python_Run [OF this]
      have "fst (decrypt_and_execute E payload)
            = (case fst (execute_python E key decrypted args name hs) of
                 Inl e \<Rightarrow> Inr (failure_response E e) | Inr r \<Rightarrow> Inr r)"
        using Inr x dec False by (simp add: dae_structure Let_def)
      with r show ?thesis by (simp split: sum.splits)
    qed
  qed
qed

lemma str_value_JStr [simp]: "str_value E (JStr s) = s"
  by (simp add: str_value_def)

lemma get_method_obj [simp]: "get_method (JObj d) k dflt = Inr (dict_get d k dflt)"
  by (simp add: get_method_def dict_get_def)

lemma getitem_obj:
  "getitem (JObj d) k = (case map_of d k of Some v \<Rightarrow> Inr v | None \<Rightarrow> Inl (KeyError k))"
  by (simp add: getitem_def)


lemma py_print_cases: "py_print E vs = Inr () \<or> py_print E vs = Inl UnicodeEncodeError"
  by (simp add: py_print_def)

lemma helper_fields_obj:
  "helper_fields E (JObj h) =
     (case map_of h (str ''name'') of
        None \<Rightarrow> Inl (KeyError (str ''name''))
      | Some name \<Rightarrow>
          (case map_of h (str ''encryptedContent'') of
             None \<Rightarrow> Inl (KeyError (str ''encryptedContent''))
           | Some c \<Rightarrow>
               (case fromhex E c of
                  Inl e \<Rightarrow> Inl e
                | Inr cipher_text \<Rightarrow>
                    (case map_of h (str ''iv'') of
                       None \<Rightarrow> Inl (KeyError (str ''iv''))
                     | Some i \<Rightarrow>
                         (case fromhex E i of
                            Inl e \<Rightarrow> Inl e
                          | Inr iv \<Rightarrow>
                              (case map_of h (str ''authTag'') of
                                 None \<Rightarrow> Inl (KeyError (str ''authTag''))
                               | Some a \<Rightarrow>
                                   (case fromhex E a of
                                      Inl e \<Rightarrow> Inl e
                                    | Inr tag \<Rightarrow> Inr (name, cipher_text, iv, tag))))))))"
  by (simp add: helper_fields_def getitem_obj sum_bind_def split: option.splits sum.splits)



lemma materialize_helper_obj:
  assumes "printable_helper E helper"
  shows "materialize_helper E key tmp helper = (Inr (), helper_events E key tmp helper)"
proof -
  from assms obtain h where h: "helper = JObj h"
    and p: "py_print E [dict_get h (str ''name'') (JStr (str ''unknown''))] = Inr ()"
    by (cases helper) (simp_all add: printable_helper_def)
  have pn: "py_print E [n] = Inr ()" if "map_of h (str ''name'') = Some n" for n
    using p that by (simp add: dict_get_def)
  show ?thesis
    unfolding h
    by (rule prod_eqI)
       (simp_all add: materialize_helper_def helper_fields_obj two_layout_eq helper_events_def
          fst_try_except snd_try_except fst_io_bind snd_io_bind p pn path_join_def
          open_write_def outcome_def split_beta Let_def
          split: option.splits sum.splits json.splits)
qed






text \<open>
  C8, as the code has it. When the main script has been started (the call of
  \<open>subprocess.run\<close> with the 60 second timeout is part of the run): if the process
  completes with a non-zero exit status, the result carries \<open>success: false\<close>, as
  \<open>error\<close> the captured stderr stripped of surrounding whitespace (or
  \<open>Script execution failed\<close> when stderr is empty) and as \<open>output\<close> the captured
  stdout stripped; if the call raises, as it does on a timeout, the result is
  \<open>success: false\<close> with the error \<open>Decryption/execution failed: \<close> followed by the
  text of the exception, and carries neither stderr nor stdout.
\<close>

theorem script_failure_response:
  assumes "EvRun argv cwd 60 \<in> set (snd (decrypt_and_execute E payload))"
  shows "(\<forall>result. subprocess_run E argv cwd 60 = Inr result \<and> returncode result \<noteq> 0 \<longrightarrow>
            fst (decrypt_and_execute E payload)
              = Inr (JObj [(str ''success'', JBool False),
                           (str ''error'', JStr (if stderr result \<noteq> [] then strip (stderr result)
                                                else str ''Script execution failed'')),
                           (str ''output'', JStr (strip (stdout result)))]))
         \<and> (\<forall>e. subprocess_run E argv cwd 60 = Inl e \<longrightarrow>
               fst (decrypt_and_execute E payload) = Inr (failure_response E e))"
  using dae_Run [OF assms]
  by (auto simp: normalize_result_def)



lemma helper_oracles_print [simp]:
  "str_value (E\<lparr>fromhex := hx, aesgcm_decrypt := dc, decode_utf8 := ut, write_file := wr\<rparr>)
   = str_value E"
  "py_print (E\<lparr>fromhex := hx, aesgcm_decrypt := dc, decode_utf8 := ut, write_file := wr\<rparr>)
   = py_print E"
  by (rule ext, simp add: str_value_def py_print_def cong del: weak_congs)+

lemma helper_oracles_printable [simp]:
  "printable_helper
     (E\<lparr>fromhex := hx, aesgcm_decrypt := dc, decode_utf8 := ut, write_file := wr\<rparr>)
   = printable_helper E"
  by (rule ext) (simp add: printable_helper_def cong del: weak_congs)




lemma materialize_helper_events:
  "snd (materialize_helper E key tmp helper) = helper_events E key tmp helper"
proof (cases helper)
  case (JObj h)
  show ?thesis
    unfolding JObj
    by (simp add: materialize_helper_def helper_fields_obj two_layout_eq helper_events_def
          snd_try_except snd_io_bind fst_io_bind path_join_def open_write_def outcome_def
          split_beta Let_def split: option.splits sum.splits json.splits)
qed (simp_all add: materialize_helper_def helper_fields_def getitem_def sum_bind_def
       get_method_def helper_events_def)

lemma materialize_helpers_append:
  "list_all (printable_helper E) xs \<Longrightarrow>
   snd (materialize_helpers E key tmp (xs @ ys))
   = concat (map (helper_events E key tmp) xs) @ snd (materialize_helpers E key tmp ys)"
proof (induction xs)
  case Nil
  show ?case by simp
next
  case (Cons h xs)
  then show ?case
    by (simp add: materialize_helper_obj)
qed

lemma execute_python_trace:
  assumes "decode_utf8 E decrypted = Inr script_content" "mkdtemp E = Inr temp_dir"
  shows "snd (execute_python E key decrypted arguments script_name helper_scripts)
         = EvMkdtemp # snd (script_steps E key temp_dir helper_scripts script_name
                              (clean_script script_content) arguments)
           @ [EvRmtree temp_dir]"
  using assms by (simp add: execute_python_structure Let_def)

lemma helper_write_in_trace:
  assumes it: "py_iter helper_scripts = Inr (before @ JObj h # after)"
    and d: "list_all (printable_helper E) before"
    and f: "map_of h (str ''name'') = Some (JStr name)"
      "map_of h (str ''encryptedContent'') = Some hc" "fromhex E hc = Inr helper_encrypted"
      "map_of h (str ''iv'') = Some hi" "fromhex E hi = Inr helper_iv"
      "map_of h (str ''authTag'') = Some ha" "fromhex E ha = Inr helper_auth_tag"
    and tl: "fst (two_layout_attempts E key helper_iv helper_encrypted helper_auth_tag)
             = Inr plaintext"
    and c: "decode_utf8 E plaintext = Inr content"
  shows "EvWrite (os_path_join E temp_dir name) (replace_cr (replace_crlf content))
           \<in> set (snd (script_steps E key temp_dir helper_scripts script_name script_content
                          arguments))"
proof -
  let ?w = "EvWrite (os_path_join E temp_dir name) (replace_cr (replace_crlf content))"
  have "?w \<in> set (helper_events E key temp_dir (JObj h))"
    using f tl c by (simp add: helper_events_def)
  then have "?w \<in> set (snd (materialize_helpers E key temp_dir (before @ JObj h # after)))"
    by (simp add: materialize_helpers_append [OF d] snd_io_bind materialize_helper_events)
  then show ?thesis
    using it by (simp add: script_steps_def snd_io_bind)
qed

text \<open>
  C9, as the code has it. Take a helper that the loop reaches (every entry before it is an
  object with a printable name), that has a string as \<open>name\<close> and hexadecimal
  \<open>encryptedContent\<close>, \<open>iv\<close> and \<open>authTag\<close>, and whose content decrypts and decodes. It
  is written at exactly \<open>os.path.join(temp_dir, name)\<close>, the name taken verbatim: no name
  is rejected or changed. The only directory the run removes is \<open>temp_dir\<close>. So whenever
  the joined path lies outside \<open>temp_dir\<close> and the write succeeds, the file is written
  outside the temporary directory and the cleanup does not remove it.
\<close>

theorem helper_path_is_verbatim:
  assumes it: "py_iter helper_scripts = Inr (before @ JObj h # after)"
    and d: "list_all (printable_helper E) before"
    and sc: "decode_utf8 E decrypted = Inr script_content" and t: "mkdtemp E = Inr temp_dir"
    and f: "map_of h (str ''name'') = Some (JStr name)"
      "map_of h (str ''encryptedContent'') = Some hc" "fromhex E hc = Inr helper_encrypted"
      "map_of h (str ''iv'') = Some hi" "fromhex E hi = Inr helper_iv"
      "map_of h (str ''authTag'') = Some ha" "fromhex E ha = Inr helper_auth_tag"
    and tl: "fst (two_layout_attempts E key helper_iv helper_encrypted helper_auth_tag)
             = Inr plaintext"
    and c: "decode_utf8 E plaintext = Inr content"
    and w: "write_file E (os_path_join E temp_dir name) (replace_cr (replace_crlf content)) = None"
  shows "EvWrite (os_path_join E temp_dir name) (replace_cr (replace_crlf content))
           \<in> set (snd (execute_python E key decrypted arguments script_name helper_scripts))
         \<and> (\<forall>dir. EvRmtree dir
                 \<in> set (snd (execute_python E key decrypted arguments script_name helper_scripts))
               \<longrightarrow> dir = temp_dir)
         \<and> (\<forall>inside. \<not> inside temp_dir (os_path_join E temp_dir name) \<longrightarrow>
               \<not> removed_by inside
                   (snd (execute_python E key decrypted arguments script_name helper_scripts))
                   (os_path_join E temp_dir name))"
proof -
  let ?body = "script_steps E key temp_dir helper_scripts script_name (clean_script script_content)
                 arguments"
  let ?p = "os_path_join E temp_dir name"
  let ?w = "EvWrite ?p (replace_cr (replace_crlf content))"
  have ep: "snd (execute_python E key decrypted arguments script_name helper_scripts)
            = EvMkdtemp # snd ?body @ [EvRmtree temp_dir]"
    using sc t by (rule execute_python_trace)
  have wb: "?w \<in> set (snd ?body)"
    using it d f tl c by (rule helper_write_in_trace)
  have kb: "kinds ?body \<subseteq> {Decrypt, Write, Run, Exists, LoadImage}"
    by (rule kinds_script_steps) simp_all
  from no_kind [OF kb, of Rmtree] have nb: "EvRmtree dir \<notin> set (snd ?body)" for dir
    by auto
  have r: "dir = temp_dir"
    if "EvRmtree dir
          \<in> set (snd (execute_python E key decrypted arguments script_name helper_scripts))"
    for dir
    using that nb [of dir] unfolding ep by simp
  have n: "\<not> removed_by inside
               (snd (execute_python E key decrypted arguments script_name helper_scripts)) ?p"
    if "\<not> inside temp_dir ?p" for inside
  proof -
    have "\<forall>ev\<in>set (snd ?body). kind ev \<noteq> Rmtree"
      by (rule no_kind [OF kb]) simp
    then have "\<not> list_ex (\<lambda>ev. case ev of EvRmtree d \<Rightarrow> inside d ?p | _ \<Rightarrow> False) (snd ?body)"
      by (auto simp: list_ex_iff split: event.splits)
    with that show ?thesis
      unfolding ep removed_by_def by simp
  qed
  from wb r n show ?thesis
    unfolding ep by simp
qed

lemma map_of_dict_set: "map_of (dict_set k v d) = (map_of d)(k \<mapsto> v)"
  by (induction d) (auto simp: fun_eq_iff)

lemma keys_dict_set: "fst ` set (dict_set k v d) = insert k (fst ` set d)"
  by (induction d) auto

lemma distinct_dict_set: "distinct (map fst d) \<Longrightarrow> distinct (map fst (dict_set k v d))"
proof (induction d)
  case Nil
  show ?case by simp
next
  case (Cons p d)
  then show ?case
    using keys_dict_set [of k v d] by (auto simp: image_iff)
qed

lemma map_of_dict_merge:
  "distinct (map fst b) \<Longrightarrow> map_of (dict_merge a b) = map_of a ++ map_of b"
  unfolding dict_merge_def
proof (induction b arbitrary: a)
  case Nil
  show ?case by simp
next
  case (Cons kv b)
  obtain k v where kv: "kv = (k, v)" by (cases kv)
  from Cons.prems kv have "k \<notin> dom (map_of b)" and db: "distinct (map fst b)"
    by (auto simp: dom_map_of_conv_image_fst)
  then have u: "(map_of a)(k \<mapsto> v) ++ map_of b = (map_of a ++ map_of b)(k \<mapsto> v)"
    by (auto simp: fun_eq_iff map_add_def split: option.splits)
  have "map_of (foldl (\<lambda>acc kv. dict_set (fst kv) (snd kv) acc) (dict_set k v a) b)
        = map_of (dict_set k v a) ++ map_of b"
    by (rule Cons.IH [OF db])
  also have "\<dots> = (map_of a)(k \<mapsto> v) ++ map_of b"
    by (simp only: map_of_dict_set)
  also have "\<dots> = (map_of a ++ map_of b)(k \<mapsto> v)"
    by (rule u)
  also have "\<dots> = map_of a ++ map_of ((k, v) # b)"
    by (simp only: map_of.simps map_add_upd fst_conv snd_conv)
  finally show ?case
    by (simp only: kv foldl_Cons fst_conv snd_conv)
qed

lemma distinct_dict_merge:
  "distinct (map fst a) \<Longrightarrow> distinct (map fst (dict_merge a b))"
  unfolding dict_merge_def
  by (induction b arbitrary: a) (simp_all add: distinct_dict_set)

lemma add_base64_result:
  "fst (add_base64_screenshot E d)
   = Inr (case map_of d (str ''path'') of
            None \<Rightarrow> None
          | Some p \<Rightarrow>
              if truthy p \<and> os_path_exists E p = Inr True \<and> py_print E [p] = Inr ()
              then (case image_base64 E p of
                      Inr b \<Rightarrow> Some (dict_set (str ''screenshot'') (JStr b) d)
                    | Inl e \<Rightarrow> None)
              else None)"
  using py_print_cases [of E "[the (map_of d (str ''path''))]"]
  by (auto simp: add_base64_screenshot_def fst_try_except fst_io_bind Let_def
        split: option.splits sum.splits)

lemma dict_set_not_Nil: "dict_set k v d \<noteq> []"
  by (cases d) auto

lemma normalize_parsed_object:
  assumes "returncode result = 0" "json_loads E (stdout result) = Inr (JObj d)"
  shows "fst (normalize_result E result)
         = Inr (JObj (dict_merge [(str ''success'', JBool True)]
                  (case encoded_image E d of
                     None \<Rightarrow> d
                   | Some b \<Rightarrow> dict_set (str ''screenshot'') (JStr b) d)))"
  using assms
  by (auto simp: normalize_result_def fst_try_except fst_io_bind add_base64_result
        encoded_image_def dict_set_not_Nil split: option.splits sum.splits)

text \<open>
  C7, as the code has it. When the script exits with status 0 and its stdout parses to an
  object, the request succeeds with an object, and an enrichment failure is never a request
  failure. If the parsed object has a truthy \<open>success\<close> and a \<open>path\<close> that names an
  existing file which is printed and loads as an image, and it has no field
  \<open>screenshot\<close>, the returned object is the parsed one with the one additional field
  \<open>screenshot\<close> holding the encoded image. If there is no encoded image (falsy
  \<open>success\<close>, no \<open>path\<close>, no such file, or a failure while checking, printing or
  loading), the returned object is the parsed one when that has a field \<open>success\<close>, and
  the parsed one with the additional field \<open>success: true\<close> when it has none.
\<close>

theorem enrichment_frame:
  assumes "returncode result = 0" and "json_loads E (stdout result) = Inr (JObj d)"
    and "distinct (map fst d)"
  shows "\<exists>r. fst (normalize_result E result) = Inr (JObj r) \<and> distinct (map fst r)
           \<and> (case encoded_image E d of
                 Some b \<Rightarrow>
                   map_of d (str ''screenshot'') = None \<longrightarrow>
                   map_of r = (map_of d)(str ''screenshot'' \<mapsto> JStr b)
               | None \<Rightarrow>
                   (case map_of d (str ''success'') of
                      Some v \<Rightarrow> map_of r = map_of d
                    | None \<Rightarrow> map_of r = (map_of d)(str ''success'' \<mapsto> JBool True)))"
proof -
  let ?x = "case encoded_image E d of
              None \<Rightarrow> d | Some b \<Rightarrow> dict_set (str ''screenshot'') (JStr b) d"
  let ?r = "dict_merge [(str ''success'', JBool True)] ?x"
  have dx: "distinct (map fst ?x)"
    using assms(3) by (simp add: distinct_dict_set split: option.splits)
  have mx: "map_of ?x = (case encoded_image E d of
                  None \<Rightarrow> map_of d
                | Some b \<Rightarrow> (map_of d)(str ''screenshot'' \<mapsto> JStr b))"
    by (simp add: map_of_dict_set split: option.splits)
  have sx: "map_of ?x (str ''success'') = map_of d (str ''success'')"
    by (simp add: map_of_dict_set split: option.splits)
  have "map_of ?r = map_of [(str ''success'', JBool True)] ++ map_of ?x"
    using dx by (rule map_of_dict_merge)
  also have "\<dots> = (map_of ?x)(str ''success'' \<mapsto>
                  (case map_of ?x (str ''success'') of Some v \<Rightarrow> v | None \<Rightarrow> JBool True))"
    by (auto simp: fun_eq_iff map_add_def split: option.splits)
  also have "\<dots> = (map_of ?x)(str ''success'' \<mapsto>
                  (case map_of d (str ''success'') of Some v \<Rightarrow> v | None \<Rightarrow> JBool True))"
    by (simp only: sx)
  finally have m: "map_of ?r = (map_of ?x)(str ''success'' \<mapsto>
                  (case map_of d (str ''success'') of Some v \<Rightarrow> v | None \<Rightarrow> JBool True))" .
  have su: "\<exists>v. map_of d (str ''success'') = Some v" if "encoded_image E d = Some b" for b
    using that by (auto simp: encoded_image_def split: option.splits if_splits)
  have own: "f(k \<mapsto> v) = f" if "f k = Some v" for f :: "pystr \<rightharpoonup> json" and k v
    using that by (auto simp: fun_eq_iff)
  have "case encoded_image E d of
          Some b \<Rightarrow>
            map_of d (str ''screenshot'') = None \<longrightarrow>
            map_of ?r = (map_of d)(str ''screenshot'' \<mapsto> JStr b)
        | None \<Rightarrow>
            (case map_of d (str ''success'') of
               Some v \<Rightarrow> map_of ?r = map_of d
             | None \<Rightarrow> map_of ?r = (map_of d)(str ''success'' \<mapsto> JBool True))"
  proof (cases "encoded_image E d")
    case None
    with m have m': "map_of (dict_merge [(str ''success'', JBool True)] d)
                     = (map_of d)(str ''success'' \<mapsto>
                         (case map_of d (str ''success'') of Some v \<Rightarrow> v | None \<Rightarrow> JBool True))"
      by simp
    show ?thesis
    proof (cases "map_of d (str ''success'')")
      case n: None
      with m' None show ?thesis by simp
    next
      case (Some v)
      with m' own [of "map_of d" "str ''success''" v] None show ?thesis by simp
    qed
  next
    case (Some b)
    from su [OF Some] obtain v where v: "map_of d (str ''success'') = Some v" by blast
    have "((map_of d)(str ''screenshot'' \<mapsto> JStr b)) (str ''success'') = Some v"
      using v by simp
    from m Some v
      own [of "(map_of d)(str ''screenshot'' \<mapsto> JStr b)" "str ''success''" v, OF this]
    show ?thesis
      by (simp add: map_of_dict_set)
  qed
  moreover have "distinct (map fst ?r)"
    by (rule distinct_dict_merge) simp
  ultimately show ?thesis
    using normalize_parsed_object [OF assms(1,2)] by blast
qed

lemmas run_defs =
  extract_fields_def helper_fields_def sum_bind_def getitem_def get_method_def py_len_def
  py_iter_def outcome_def two_layout_attempts_def fst_io_bind snd_io_bind fst_try_except
  snd_try_except materialize_helper_def two_layout_eq path_join_def open_write_def
  run_main_script_def script_steps_def Let_def split_beta

lemma demo_oracles [simp]:
  "API_KEY (demo_env r j) = str ''secret''"
  "fromhex (demo_env r j) (JStr (str ''7031'')) = Inr [0x70, 0x31]"
  "fromhex (demo_env r j) (JStr (str ''68'')) = Inr [0x68]"
  "fromhex (demo_env r j) (JStr (str ''0c'')) = Inr [0x0c]"
  "fromhex (demo_env r j) (JStr (str ''0d'')) = Inr [0x0d]"
  "fromhex (demo_env r j) (JStr (str ''00'')) = Inr [0x00]"
  "fromhex (demo_env r j) (JStr (str ''aa'')) = Inr [0xaa]"
  "fromhex (demo_env r j) (JStr (str ''zz'')) = Inl (LibraryError (str ''non-hexadecimal number found''))"
  "AESGCM (demo_env r j) k = None"
  "aesgcm_decrypt (demo_env r j) k n d
   = (if d \<noteq> [] \<and> last d \<noteq> 0 then Inr d else Inl (LibraryError (str ''InvalidTag'')))"
  "decode_utf8 (demo_env r j) b = Inr (map unat b)"
  "mkdtemp (demo_env r j) = Inr (str ''/tmp/mcp_script_x'')"
  "os_path_join (demo_env r j) dir nm = (if take 1 nm = str ''/'' then nm else dir @ str ''/'' @ nm)"
  "write_file (demo_env r j) pth txt = None"
  "py_str (demo_env r j) (JStr t1) = t1"
  "subprocess_run (demo_env r j) argv cwd t = r"
  "json_loads (demo_env r j) t2 = j"
  "os_path_exists (demo_env r j) v = Inr True"
  "image_base64 (demo_env r j) v = Inr (str ''iVBORw0KGgo='')"
  "str_exn (demo_env r j) TimeoutExpired = str ''timed out''"
  "str_exn (demo_env r j) (LibraryError t3) = t3"
  "py_int (demo_env r j) cl = Inr 0"
  "json_loads_bytes (demo_env r j) bs = Inr demo_payload"
  "json_dumps (demo_env r j) v = str ''{...}''"
  "py_str (demo_env r j) (JArr xs) = []"
  "encodable (demo_env r j) cp = (cp < 0xD800 \<or> 0xDFFF < cp)"
  by (simp_all add: demo_env_def)

lemma demo_encodable: "list_all (encodable (demo_env r j)) (str a)"
proof -
  have "(of_char ch :: nat) < 256" for ch
    using mod_less_divisor [of 256 "of_char ch :: nat"] by simp
  then have "(of_char ch :: nat) < 55296" for ch
    using less_trans [of "of_char ch :: nat" 256 55296] by simp
  then show ?thesis
    by (simp add: str_def list_all_iff)
qed

lemma demo_print [simp]:
  "py_print (demo_env r j) [JStr (str a)] = Inr ()"
  "py_print (demo_env r j) [JStr (str a), JStr (str b)] = Inr ()"
  "py_print (demo_env r j) [JArr xs] = Inr ()"
  by (simp_all add: py_print_def str_value_def demo_encodable)

lemma demo_extract:
  "extract_fields (demo_env r j) demo_payload
   = Inr ([0x70, 0x31], [0x0c], [0x00], [0xaa], JStr (str ''python''), JArr [JStr (str ''--json'')],
          JStr (str ''main.py''), JArr demo_helper_list)"
  by (simp add: run_defs demo_payload_def demo_fields_def demo_helper_list_def dict_get_def)

lemma demo_two_layout:
  "two_layout_attempts (demo_env r j) [0xaa] [0x0c] [0x70, 0x31] [0x00]
   = (Inr [0x70, 0x31],
      [EvDecrypt [0xaa] [0x0c] [0x70, 0x31, 0x00], EvDecrypt [0xaa] [0x0c] [0x70, 0x31]])"
  by (simp add: two_layout_attempts_def)

lemma demo_clean: "clean_script [112, 49] = str ''p1''"
  by (simp add: clean_script_def replace_cr_def fix_line_continuations_def fix_loop_eq
        rstrip_def endswith_def isspace_def str_def)

lemma str_append [simp]: "str a @ str b = str (a @ b)"
  by (simp add: str_def)

lemma take1_str [simp]: "take (Suc 0) (str (c # cs)) = str [d] \<longleftrightarrow> c = d"
  by (simp add: str_def)

lemma demo_texts [simp]: "replace_cr [104] = str ''h''"
  by (simp add: str_def replace_cr_def)

lemma demo_steps_fst:
  "fst (script_steps (demo_env r j) [0xaa] (str ''/tmp/mcp_script_x'') (JArr demo_helper_list)
     (JStr (str ''main.py'')) (str ''p1'') (JArr [JStr (str ''--json'')]))
   = (case r of Inl e \<Rightarrow> Inl e | Inr result \<Rightarrow> fst (normalize_result (demo_env r j) result))"
  by (cases r) (simp_all add: run_defs demo_helper_list_def)

lemma demo_steps_snd:
  "snd (script_steps (demo_env r j) [0xaa] (str ''/tmp/mcp_script_x'') (JArr demo_helper_list)
     (JStr (str ''main.py'')) (str ''p1'') (JArr [JStr (str ''--json'')]))
   = drop 3 demo_events
     @ (case r of Inl e \<Rightarrow> [] | Inr result \<Rightarrow> snd (normalize_result (demo_env r j) result))"
  by (cases r) (simp_all add: run_defs demo_helper_list_def demo_events_def)

lemma demo_decrypt_and_execute:
  "decrypt_and_execute (demo_env r j) demo_payload
   = (case r of
        Inl e \<Rightarrow> (Inr (failure_response (demo_env r j) e),
                  demo_events @ [EvRmtree (str ''/tmp/mcp_script_x'')])
      | Inr result \<Rightarrow>
         (case fst (normalize_result (demo_env r j) result) of
            Inl e \<Rightarrow> Inr (failure_response (demo_env r j) e) | Inr v \<Rightarrow> Inr v,
          demo_events @ snd (normalize_result (demo_env r j) result)
          @ [EvRmtree (str ''/tmp/mcp_script_x'')]))"
  unfolding dae_structure demo_extract execute_python_structure
  by (cases r)
     (simp_all add: demo_two_layout demo_clean demo_steps_fst demo_steps_snd demo_events_def
        Let_def)

lemma demo_boom:
  "normalize_result E \<lparr>returncode = 1, stdout = str ''partial '', stderr = str ''boom''\<rparr>
   = (Inr (JObj [(str ''success'', JBool False), (str ''error'', JStr (str ''boom'')),
                 (str ''output'', JStr (str ''partial''))]), [])"
proof -
  have "strip (str ''boom'') = str ''boom''" "strip (str ''partial '') = str ''partial''"
    by (simp_all add: strip_def rstrip_def isspace_def str_def)
  then show ?thesis
    by (simp add: normalize_result_def ret_def)
qed

lemma demo_run:
  "decrypt_and_execute (demo_env boom not_json) demo_payload
   = (Inr (JObj [(str ''success'', JBool False), (str ''error'', JStr (str ''boom'')),
                 (str ''output'', JStr (str ''partial''))]),
      demo_events @ [EvRmtree (str ''/tmp/mcp_script_x'')])"
  by (simp add: demo_decrypt_and_execute boom_def demo_boom)

lemma demo_handle:
  "handle_encrypted_execution (demo_env boom not_json) demo_request
   = (Inr (), EvRead 0 # demo_events
              @ [EvRmtree (str ''/tmp/mcp_script_x''), EvSend 200 (str ''{...}'')])"
proof -
  have h: "authorization demo_request = Some (str ''Bearer secret'')"
    "take 7 (str ''Bearer secret'') = str ''Bearer ''"
    "drop 7 (str ''Bearer secret'') = API_KEY (demo_env boom not_json)"
    by (simp_all add: demo_request_def str_def)
  have o: "rfile_read demo_request 0 = Inr []"
    by (simp add: demo_request_def)
  show ?thesis
    unfolding handle_structure [OF h] by (simp add: o demo_run)
qed

text \<open>
  C2 at a request with a wrong token.
\<close>

theorem unauthorized_is_401_witness:
  "handle_encrypted_execution (demo_env boom not_json)
     \<lparr>authorization = Some (str ''Bearer wrong''), content_length = None,
      rfile_read = (\<lambda>n. Inr [])\<rparr>
   = (Inr (), [EvSend 401 unauthorized_body])"
  by (rule unauthorized_is_401) (simp add: str_def)

text \<open>
  C1 at a request whose main script exits with status 1.
\<close>

theorem temp_dir_removed_before_response_witness:
  "\<exists>t response.
     handle_encrypted_execution (demo_env boom not_json) demo_request
       = (Inr (), t @ [EvRmtree (str ''/tmp/mcp_script_x''),
                       EvSend 200 (json_dumps (demo_env boom not_json) response)])
     \<and> (\<forall>d. EvRmtree d \<notin> set t) \<and> (\<forall>s b. EvSend s b \<notin> set t)
     \<and> (\<forall>r. handle_encrypted_execution ((demo_env boom not_json)\<lparr>rmtree := r\<rparr>) demo_request
              = handle_encrypted_execution (demo_env boom not_json) demo_request)"
  by (rule temp_dir_removed_before_response) (simp_all add: demo_handle demo_events_def)

text \<open>
  C8 at the scenario of the specification: exit status 1, stderr \<open>boom\<close>.
\<close>

theorem script_failure_response_witness:
  "fst (decrypt_and_execute (demo_env boom not_json) demo_payload)
   = Inr (JObj [(str ''success'', JBool False), (str ''error'', JStr (str ''boom'')),
                (str ''output'', JStr (str ''partial''))])"
proof -
  let ?E = "demo_env boom not_json"
  let ?argv = "[str ''python'', str ''/tmp/mcp_script_x/main.py'', str ''--json'']"
  let ?cwd = "Some (str ''/tmp/mcp_script_x'')"
  let ?result = "\<lparr>returncode = 1, stdout = str ''partial '', stderr = str ''boom''\<rparr>"
  have "EvRun ?argv ?cwd 60 \<in> set (snd (decrypt_and_execute ?E demo_payload))"
    by (simp add: demo_run demo_events_def)
  from script_failure_response [OF this]
  have "\<forall>result. subprocess_run ?E ?argv ?cwd 60 = Inr result \<and> returncode result \<noteq> 0 \<longrightarrow>
          fst (decrypt_and_execute ?E demo_payload)
            = Inr (JObj [(str ''success'', JBool False),
                         (str ''error'', JStr (if stderr result \<noteq> [] then strip (stderr result)
                                              else str ''Script execution failed'')),
                         (str ''output'', JStr (strip (stdout result)))])"
    by (rule conjunct1)
  from this [rule_format, of ?result]
  have "fst (decrypt_and_execute ?E demo_payload)
            = Inr (JObj [(str ''success'', JBool False),
                         (str ''error'', JStr (strip (str ''boom''))),
                         (str ''output'', JStr (strip (str ''partial '')))])"
    by (simp add: boom_def)
  moreover have "strip (str ''boom'') = str ''boom''" "strip (str ''partial '') = str ''partial''"
    by (simp_all add: strip_def rstrip_def isspace_def str_def)
  ultimately show ?thesis by simp
qed

text \<open>
  C8 as stated fails on a timeout: the main script is started, \<open>subprocess.run\<close> raises
  \<open>TimeoutExpired\<close>, and the result has the error text of the outer handler and no
  \<open>output\<close> field.
\<close>

theorem timeout_counterexample:
  "EvRun [str ''python'', str ''/tmp/mcp_script_x/main.py'', str ''--json'']
         (Some (str ''/tmp/mcp_script_x'')) 60
     \<in> set (snd (decrypt_and_execute (demo_env (Inl TimeoutExpired) not_json) demo_payload))
   \<and> subprocess_run (demo_env (Inl TimeoutExpired) not_json)
        [str ''python'', str ''/tmp/mcp_script_x/main.py'', str ''--json'']
        (Some (str ''/tmp/mcp_script_x'')) 60 = Inl TimeoutExpired
   \<and> fst (decrypt_and_execute (demo_env (Inl TimeoutExpired) not_json) demo_payload)
     = Inr (JObj [(str ''success'', JBool False),
                  (str ''error'', JStr (str ''Decryption/execution failed: timed out''))])"
  by (simp add: demo_decrypt_and_execute demo_events_def failure_response_def)






text \<open>
  The model at a helper that cannot be reported: the handler's own print raises, and the
  exception leaves the loop.
\<close>

lemma surrogate_helper_leaves_loop:
  "materialize_helper (demo_env r j) [0xaa] (str ''/tmp/mcp_script_x'') surrogate_helper
   = (Inl UnicodeEncodeError, [])"
  by (simp add: surrogate_helper_def materialize_helper_def helper_fields_obj py_print_def
        dict_get_def)





lemma shot_encoded:
  "encoded_image (demo_env r j) shot_dict = Some (str ''iVBORw0KGgo='')"
  by (simp add: encoded_image_def shot_dict_def)

text \<open>
  C7 at an object with \<open>success\<close> and \<open>path\<close>.
\<close>

theorem enrichment_frame_witness:
  "\<exists>r. fst (normalize_result (demo_env (Inr shot_result) (Inr (JObj shot_dict))) shot_result)
          = Inr (JObj r)
     \<and> distinct (map fst r)
     \<and> map_of r = (map_of shot_dict)(str ''screenshot'' \<mapsto> JStr (str ''iVBORw0KGgo=''))"
proof -
  let ?E = "demo_env (Inr shot_result) (Inr (JObj shot_dict))"
  have 1: "returncode shot_result = 0"
    by (simp add: shot_result_def)
  have 2: "json_loads ?E (stdout shot_result) = Inr (JObj shot_dict)"
    by simp
  have 3: "distinct (map fst shot_dict)"
    by (simp add: shot_dict_def)
  have 4: "map_of shot_dict (str ''screenshot'') = None"
    by (simp add: shot_dict_def)
  from enrichment_frame [OF 1 2 3] show ?thesis
    by (simp add: shot_encoded 4)
qed

text \<open>
  C7 as stated fails: the parsed object has no \<open>path\<close> (and no \<open>success\<close>), and the
  returned object is not the parsed one: it has the additional field \<open>success: true\<close>.
\<close>

theorem success_added_counterexample:
  "returncode plain_result = 0
   \<and> json_loads (demo_env (Inr plain_result) (Inr (JObj plain_dict))) (stdout plain_result)
     = Inr (JObj [(str ''output'', JStr (str ''done''))])
   \<and> map_of [(str ''output'', JStr (str ''done''))] (str ''path'') = None
   \<and> fst (normalize_result (demo_env (Inr plain_result) (Inr (JObj plain_dict))) plain_result)
     = Inr (JObj [(str ''success'', JBool True), (str ''output'', JStr (str ''done''))])"
proof -
  let ?E = "demo_env (Inr plain_result) (Inr (JObj plain_dict))"
  have 1: "returncode plain_result = 0"
    by (simp add: plain_result_def)
  have 2: "json_loads ?E (stdout plain_result) = Inr (JObj plain_dict)"
    by simp
  have 3: "encoded_image ?E plain_dict = None"
    by (simp add: encoded_image_def plain_dict_def)
  show ?thesis
    unfolding normalize_parsed_object [OF 1 2] 3
    by (simp add: plain_dict_def plain_result_def dict_merge_def)
qed

lemma helper_two_layout:
  "fst (two_layout_attempts (demo_env r j) [0xaa] [0x0d] [0x68] [0x00]) = Inr [0x68]"
  by (simp add: two_layout_attempts_def)

lemma outside_fields:
  "map_of outside_helper (str ''name'') = Some (JStr (str ''/etc/evil.py''))"
  "map_of outside_helper (str ''encryptedContent'') = Some (JStr (str ''68''))"
  "fromhex (demo_env r j) (JStr (str ''68'')) = Inr [0x68]"
  "map_of outside_helper (str ''iv'') = Some (JStr (str ''0d''))"
  "fromhex (demo_env r j) (JStr (str ''0d'')) = Inr [0x0d]"
  "map_of outside_helper (str ''authTag'') = Some (JStr (str ''00''))"
  "fromhex (demo_env r j) (JStr (str ''00'')) = Inr [0x00]"
  by (simp_all add: outside_helper_def)

lemma inside_fields:
  "map_of inside_helper (str ''name'') = Some (JStr (str ''/tmp/mcp_script_x/h.py''))"
  "map_of inside_helper (str ''encryptedContent'') = Some (JStr (str ''68''))"
  "fromhex (demo_env r j) (JStr (str ''68'')) = Inr [0x68]"
  "map_of inside_helper (str ''iv'') = Some (JStr (str ''0d''))"
  "fromhex (demo_env r j) (JStr (str ''0d'')) = Inr [0x0d]"
  "map_of inside_helper (str ''authTag'') = Some (JStr (str ''00''))"
  "fromhex (demo_env r j) (JStr (str ''00'')) = Inr [0x00]"
  by (simp_all add: inside_helper_def)

text \<open>
  C9 at a helper named \<open>/etc/evil.py\<close>.
\<close>

theorem helper_path_is_verbatim_witness:
  "EvWrite (str ''/etc/evil.py'') (str ''h'')
     \<in> set (snd (execute_python (demo_env boom not_json) [0xaa] [0x70, 0x31]
                   (JArr [JStr (str ''--json'')]) (JStr (str ''main.py''))
                   (JArr [JObj outside_helper])))
   \<and> \<not> under_prefix (str ''/tmp/mcp_script_x'') (str ''/etc/evil.py'')
   \<and> \<not> removed_by under_prefix
         (snd (execute_python (demo_env boom not_json) [0xaa] [0x70, 0x31]
                 (JArr [JStr (str ''--json'')]) (JStr (str ''main.py''))
                 (JArr [JObj outside_helper])))
         (str ''/etc/evil.py'')"
proof -
  let ?E = "demo_env boom not_json"
  have 1: "py_iter (JArr [JObj outside_helper]) = Inr ([] @ JObj outside_helper # [])"
    by (simp add: py_iter_def)
  have 2: "list_all (printable_helper ?E) []"
    by simp
  have 3: "decode_utf8 ?E [0x70, 0x31] = Inr [112, 49]"
    by simp
  have 4: "mkdtemp ?E = Inr (str ''/tmp/mcp_script_x'')"
    by simp
  have 5: "decode_utf8 ?E [0x68] = Inr [104]"
    by simp
  have 6: "write_file ?E (os_path_join ?E (str ''/tmp/mcp_script_x'') (str ''/etc/evil.py''))
             (replace_cr (replace_crlf [104])) = None"
    by simp
  have j: "os_path_join ?E (str ''/tmp/mcp_script_x'') (str ''/etc/evil.py'')
           = str ''/etc/evil.py''"
    by simp
  have c: "replace_cr (replace_crlf [104]) = str ''h''"
    by simp
  have u: "\<not> under_prefix (str ''/tmp/mcp_script_x'') (str ''/etc/evil.py'')"
    by (simp add: under_prefix_def str_def)
  from helper_path_is_verbatim [OF 1 2 3 4 outside_fields helper_two_layout 5 6,
      of "JArr [JStr (str ''--json'')]" "JStr (str ''main.py'')"] u
  show ?thesis
    unfolding j c by blast
qed

text \<open>
  C9 as stated fails: the helper's name is an absolute path, the write succeeds, and the
  file is written inside the temporary directory and removed with it.
\<close>

theorem absolute_name_counterexample:
  "take 1 (str ''/tmp/mcp_script_x/h.py'') = str ''/''
   \<and> os_path_join (demo_env boom not_json) (str ''/tmp/mcp_script_x'')
        (str ''/tmp/mcp_script_x/h.py'') = str ''/tmp/mcp_script_x/h.py''
   \<and> write_file (demo_env boom not_json) (str ''/tmp/mcp_script_x/h.py'') (str ''h'') = None
   \<and> EvWrite (str ''/tmp/mcp_script_x/h.py'') (str ''h'')
       \<in> set (snd (execute_python (demo_env boom not_json) [0xaa] [0x70, 0x31]
                     (JArr [JStr (str ''--json'')]) (JStr (str ''main.py''))
                     (JArr [JObj inside_helper])))
   \<and> under_prefix (str ''/tmp/mcp_script_x'') (str ''/tmp/mcp_script_x/h.py'')
   \<and> removed_by under_prefix
        (snd (execute_python (demo_env boom not_json) [0xaa] [0x70, 0x31]
                (JArr [JStr (str ''--json'')]) (JStr (str ''main.py''))
                (JArr [JObj inside_helper])))
        (str ''/tmp/mcp_script_x/h.py'')"
proof -
  let ?E = "demo_env boom not_json"
  let ?trace = "snd (execute_python ?E [0xaa] [0x70, 0x31]
                (JArr [JStr (str ''--json'')]) (JStr (str ''main.py''))
                (JArr [JObj inside_helper]))"
  let ?body = "snd (script_steps ?E [0xaa] (str ''/tmp/mcp_script_x'') (JArr [JObj inside_helper])
                 (JStr (str ''main.py'')) (clean_script [112, 49])
                 (JArr [JStr (str ''--json'')]))"
  have 1: "py_iter (JArr [JObj inside_helper]) = Inr ([] @ JObj inside_helper # [])"
    by (simp add: py_iter_def)
  have 2: "list_all (printable_helper ?E) []"
    by simp
  have 3: "decode_utf8 ?E [0x70, 0x31] = Inr [112, 49]"
    by simp
  have 4: "mkdtemp ?E = Inr (str ''/tmp/mcp_script_x'')"
    by simp
  have 5: "decode_utf8 ?E [0x68] = Inr [104]"
    by simp
  have a: "take 1 (str ''/tmp/mcp_script_x/h.py'') = str ''/''"
    by (simp add: str_def)
  have j: "os_path_join ?E (str ''/tmp/mcp_script_x'') (str ''/tmp/mcp_script_x/h.py'')
           = str ''/tmp/mcp_script_x/h.py''"
    by simp
  have c: "replace_cr (replace_crlf [104]) = str ''h''"
    by simp
  have u: "under_prefix (str ''/tmp/mcp_script_x'') (str ''/tmp/mcp_script_x/h.py'')"
    by (simp add: under_prefix_def str_def)
  have t: "?trace = EvMkdtemp # ?body @ [EvRmtree (str ''/tmp/mcp_script_x'')]"
    using 3 4 by (rule execute_python_trace)
  have "EvWrite (str ''/tmp/mcp_script_x/h.py'') (str ''h'') \<in> set ?body"
    using helper_write_in_trace [OF 1 2 inside_fields helper_two_layout 5,
        of "str ''/tmp/mcp_script_x''" "JStr (str ''main.py'')" "clean_script [112, 49]"
           "JArr [JStr (str ''--json'')]"]
    unfolding j c .
  then have w: "EvWrite (str ''/tmp/mcp_script_x/h.py'') (str ''h'') \<in> set ?trace"
    unfolding t by simp
  have r: "removed_by under_prefix ?trace (str ''/tmp/mcp_script_x/h.py'')"
    unfolding t removed_by_def using u by simp
  from a j w u r show ?thesis by simp
qed

end
